theory Spec2Isabelle
  imports Complex_Main "HOL-Library.AList"
begin

section \<open>JavaScript values used by the queue processor\<close>

text \<open>
  A JavaScript string is modelled as a HOL \<^typ>\<open>string\<close>: one \<^typ>\<open>char\<close> stands for one
  code unit, so \<^const>\<open>length\<close> is the \<^verbatim>\<open>.length\<close> of the source and \<^const>\<open>take\<close>,
  \<^const>\<open>drop\<close> are \<^verbatim>\<open>substring\<close> and \<^verbatim>\<open>slice\<close>. Code units above 255 are outside the
  model. Numbers that count things (attempts, seconds, epoch milliseconds) are integers or
  naturals; an optional field of an interface is an \<^typ>\<open>'a option\<close>.
\<close>

definition isSpace :: "char \<Rightarrow> bool" where
  \<comment> \<open>the white space and line terminators of \<^verbatim>\<open>String.prototype.trim\<close> and of \<^verbatim>\<open>\s\<close>\<close>
  "isSpace c \<longleftrightarrow> c \<in> set [CHR 0x09, CHR 0x0A, CHR 0x0B, CHR 0x0C, CHR 0x0D, CHR 0x20, CHR 0xA0]"

definition trim :: "string \<Rightarrow> string" where
  "trim s = rev (dropWhile isSpace (rev (dropWhile isSpace s)))"

definition startsWith :: "string \<Rightarrow> string \<Rightarrow> bool" where
  "startsWith s p \<longleftrightarrow> take (length p) s = p"

definition endsWith :: "string \<Rightarrow> string \<Rightarrow> bool" where
  "endsWith s p \<longleftrightarrow> length p \<le> length s \<and> drop (length s - length p) s = p"

fun includesStr :: "string \<Rightarrow> string \<Rightarrow> bool" where
  "includesStr [] p = (p = [])"
| "includesStr (c # cs) p = (startsWith (c # cs) p \<or> includesStr cs p)"

definition lowerChar :: "char \<Rightarrow> char" where
  \<comment> \<open>\<^verbatim>\<open>A\<close>..\<^verbatim>\<open>Z\<close> and the upper-case letters of the range 0xC0..0xDE move up by 32\<close>
  "lowerChar c =
     (let n = (of_char c :: nat)
      in if (65 \<le> n \<and> n \<le> 90) \<or> (192 \<le> n \<and> n \<le> 222 \<and> n \<noteq> 215)
         then char_of (n + 32) else c)"

definition toLowerCase :: "string \<Rightarrow> string" where
  "toLowerCase s = map lowerChar s"

fun joinWith :: "string \<Rightarrow> string list \<Rightarrow> string" where
  \<comment> \<open>\<^verbatim>\<open>Array.prototype.join\<close>\<close>
  "joinWith sep [] = []"
| "joinWith sep [x] = x"
| "joinWith sep (x # y # ys) = x @ sep @ joinWith sep (y # ys)"

fun splitOn :: "char \<Rightarrow> string \<Rightarrow> string list" where
  \<comment> \<open>\<^verbatim>\<open>s.split(c)\<close> for a one-character separator: never the empty list\<close>
  "splitOn d [] = [[]]"
| "splitOn d (c # cs) =
     (if c = d then [] # splitOn d cs
      else (case splitOn d cs of [] \<Rightarrow> [[c]] | l # ls \<Rightarrow> (c # l) # ls))"

definition digitChar :: "nat \<Rightarrow> char" where
  "digitChar d = ''0123456789'' ! d"

fun showNat :: "nat \<Rightarrow> string" where
  \<comment> \<open>the decimal rendering of a non-negative integer in a template literal\<close>
  "showNat n = (if n < 10 then [digitChar n] else showNat (n div 10) @ [digitChar (n mod 10)])"

declare showNat.simps [simp del]

section \<open>Configuration (\<^verbatim>\<open>lib/types.ts\<close>, \<^verbatim>\<open>lib/config.ts\<close>)\<close>

datatype SandboxMode = Host | Docker | Apple
datatype SandboxNetwork = NetNone | NetRestricted | NetDefault
datatype SandboxPathMappingMode = Mapped | SamePath

record SandboxDockerConfig =
  docker_image :: "string option"
  docker_network :: "SandboxNetwork option"
  docker_memory :: "string option"
  docker_cpus :: "string option"
  docker_pids_limit :: "int option"

record SandboxAppleConfig =
  apple_runtime_command :: "string option"
  apple_image :: "string option"
  apple_network :: "SandboxNetwork option"
  apple_memory :: "string option"
  apple_cpus :: "string option"

record SandboxConfig =
  cfg_mode :: "SandboxMode option"
  cfg_timeout_seconds :: "int option"
  cfg_max_attempts :: "int option"
  cfg_max_concurrency :: "int option"
  cfg_env_allowlist :: "string list option"
  cfg_path_mapping_mode :: "SandboxPathMappingMode option"
  cfg_docker :: "SandboxDockerConfig option"
  cfg_apple :: "SandboxAppleConfig option"

record NormalizedDocker =
  image :: string
  network :: SandboxNetwork
  memory :: string
  cpus :: string
  pids_limit :: int

record NormalizedApple =
  runtime_command :: string
  a_image :: string
  a_network :: SandboxNetwork
  a_memory :: string
  a_cpus :: string

record NormalizedSandboxConfig =
  mode :: SandboxMode
  timeout_seconds :: int
  max_attempts :: int
  max_concurrency :: int
  env_allowlist :: "string list"
  path_mapping_mode :: SandboxPathMappingMode
  docker :: NormalizedDocker
  apple :: NormalizedApple

record AgentConfig =
  agent_name :: string
  provider :: string
  model :: string
  working_directory :: string
  sandbox_mode :: "SandboxMode option"

record Settings =
  sandbox :: "SandboxConfig option"

definition DEFAULT_SANDBOX :: NormalizedSandboxConfig where
  "DEFAULT_SANDBOX =
     \<lparr> mode = Host, timeout_seconds = 600, max_attempts = 3, max_concurrency = 0,
       env_allowlist = [''ANTHROPIC_API_KEY'', ''OPENAI_API_KEY''],
       path_mapping_mode = Mapped,
       docker = \<lparr> image = ''tinyclaw/agent-runner:latest'', network = NetDefault,
                  memory = ''2g'', cpus = ''1.0'', pids_limit = 256 \<rparr>,
       apple = \<lparr> runtime_command = ''apple-container'', a_image = ''tinyclaw/agent-runner:latest'',
                 a_network = NetDefault, a_memory = ''2g'', a_cpus = ''1.0'' \<rparr> \<rparr>"

text \<open>
  The operator \<^verbatim>\<open>a || b\<close> yields \<^verbatim>\<open>b\<close> when \<^verbatim>\<open>a\<close> is falsy: an absent field, the
  number 0 or the empty string. A value of an enumeration is always truthy; \<^verbatim>\<open>a?.f\<close> of
  an absent \<^verbatim>\<open>a\<close> is absent.
\<close>

definition orNum :: "int option \<Rightarrow> int \<Rightarrow> int" where
  "orNum a b = (case a of None \<Rightarrow> b | Some n \<Rightarrow> if n = 0 then b else n)"

definition orStr :: "string option \<Rightarrow> string \<Rightarrow> string" where
  "orStr a b = (case a of None \<Rightarrow> b | Some s \<Rightarrow> if s = [] then b else s)"

definition orVal :: "'a option \<Rightarrow> 'a \<Rightarrow> 'a" where
  "orVal a b = (case a of None \<Rightarrow> b | Some v \<Rightarrow> v)"

definition emptyConfig :: SandboxConfig where
  \<comment> \<open>the object \<^verbatim>\<open>{}\<close> that stands in for an absent \<^verbatim>\<open>settings.sandbox\<close>\<close>
  "emptyConfig =
     \<lparr> cfg_mode = None, cfg_timeout_seconds = None, cfg_max_attempts = None,
       cfg_max_concurrency = None, cfg_env_allowlist = None, cfg_path_mapping_mode = None,
       cfg_docker = None, cfg_apple = None \<rparr>"

definition getSandboxConfig :: "Settings \<Rightarrow> AgentConfig option \<Rightarrow> NormalizedSandboxConfig" where
  "getSandboxConfig settings agent =
     (let configured = orVal (sandbox settings) emptyConfig;
          mode' = orVal (Option.bind agent sandbox_mode)
                    (orVal (cfg_mode configured) (mode DEFAULT_SANDBOX));
          allowlist = (case cfg_env_allowlist configured of
                         Some l \<Rightarrow> if length l > 0 then l else env_allowlist DEFAULT_SANDBOX
                       | None \<Rightarrow> env_allowlist DEFAULT_SANDBOX);
          d = cfg_docker configured;
          a = cfg_apple configured
      in \<lparr> mode = mode',
           timeout_seconds = orNum (cfg_timeout_seconds configured) (timeout_seconds DEFAULT_SANDBOX),
           max_attempts = orNum (cfg_max_attempts configured) (max_attempts DEFAULT_SANDBOX),
           max_concurrency = orNum (cfg_max_concurrency configured) (max_concurrency DEFAULT_SANDBOX),
           env_allowlist = allowlist,
           path_mapping_mode =
             orVal (cfg_path_mapping_mode configured) (path_mapping_mode DEFAULT_SANDBOX),
           docker =
             \<lparr> image = orStr (Option.bind d docker_image) (image (docker DEFAULT_SANDBOX)),
               network = orVal (Option.bind d docker_network) (network (docker DEFAULT_SANDBOX)),
               memory = orStr (Option.bind d docker_memory) (memory (docker DEFAULT_SANDBOX)),
               cpus = orStr (Option.bind d docker_cpus) (cpus (docker DEFAULT_SANDBOX)),
               pids_limit =
                 orNum (Option.bind d docker_pids_limit) (pids_limit (docker DEFAULT_SANDBOX)) \<rparr>,
           apple =
             \<lparr> runtime_command =
                 orStr (Option.bind a apple_runtime_command) (runtime_command (apple DEFAULT_SANDBOX)),
               a_image = orStr (Option.bind a apple_image) (a_image (apple DEFAULT_SANDBOX)),
               a_network = orVal (Option.bind a apple_network) (a_network (apple DEFAULT_SANDBOX)),
               a_memory = orStr (Option.bind a apple_memory) (a_memory (apple DEFAULT_SANDBOX)),
               a_cpus = orStr (Option.bind a apple_cpus) (a_cpus (apple DEFAULT_SANDBOX)) \<rparr> \<rparr>)"

definition configured_max_attempts :: "Settings \<Rightarrow> int option" where
  \<comment> \<open>\<^verbatim>\<open>settings.sandbox?.max_attempts\<close>, the value the settings document gives\<close>
  "configured_max_attempts settings = Option.bind (sandbox settings) cfg_max_attempts"

definition configured_timeout_seconds :: "Settings \<Rightarrow> int option" where
  "configured_timeout_seconds settings = Option.bind (sandbox settings) cfg_timeout_seconds"

section \<open>Sandbox runner (\<^verbatim>\<open>lib/runner.ts\<close>)\<close>

datatype ErrorClass = Terminal | Transient

record SandboxPathMapping =
  containerPrefix :: string
  hostPrefix :: string

record InvocationRequest =
  req_agentId :: string
  req_provider :: string
  req_command :: string
  req_args :: "string list"
  workingDir :: string
  req_sandbox :: NormalizedSandboxConfig

record InvocationResult =
  res_stdout :: string
  res_stderr :: string
  res_durationMs :: nat
  res_mode :: SandboxMode
  res_pathMappings :: "SandboxPathMapping list"

record SandboxInvocationError =
  err_message :: string
  classification :: ErrorClass
  err_mode :: SandboxMode
  remediation :: "string option"
  userMessage :: string

record ProcessResult =
  stdout :: string
  stderr :: string
  code :: "int option"
  timedOut :: bool
  durationMs :: nat

text \<open>
  What \<^verbatim>\<open>runProcess\<close> hands back is the environment's answer: either the child could not be
  spawned (the promise rejects with an error carrying an errno code and a message) or it
  closed with a \<^typ>\<open>ProcessResult\<close>. The exit code is absent when a signal killed the child.
\<close>

datatype SpawnOutcome = SpawnFailed string string | Closed ProcessResult

definition mkSandboxError ::
  "string \<Rightarrow> ErrorClass \<Rightarrow> SandboxMode \<Rightarrow> string option \<Rightarrow> string option \<Rightarrow> SandboxInvocationError" where
  \<comment> \<open>the constructor of the class \<^verbatim>\<open>SandboxInvocationError\<close>\<close>
  "mkSandboxError msg cls m rem um =
     \<lparr> err_message = msg, classification = cls, err_mode = m, remediation = rem,
       userMessage = orStr um ''Sorry, I could not run this request inside the configured sandbox.'' \<rparr>"

definition showMode :: "SandboxMode \<Rightarrow> string" where
  "showMode m = (case m of Host \<Rightarrow> ''host'' | Docker \<Rightarrow> ''docker'' | Apple \<Rightarrow> ''apple'')"

definition showInt :: "int \<Rightarrow> string" where
  "showInt i = (if i < 0 then ''-'' @ showNat (nat (- i)) else showNat (nat i))"

definition showCode :: "int option \<Rightarrow> string" where
  "showCode c = (case c of None \<Rightarrow> ''null'' | Some i \<Rightarrow> showInt i)"

definition getRequiredEnv :: "string \<Rightarrow> string" where
  "getRequiredEnv p = (if p = ''openai'' then ''OPENAI_API_KEY'' else ''ANTHROPIC_API_KEY'')"

definition buildAllowedEnv :: "(string \<Rightarrow> string option) \<Rightarrow> string list \<Rightarrow> (string \<Rightarrow> string option)" where
  "buildAllowedEnv base allowlist = (\<lambda>key. if key \<in> set allowlist then base key else None)"

definition terminalPatterns :: "string list" where
  "terminalPatterns =
     [''unknown flag'', ''no such file or directory'', ''not found'', ''invalid argument'',
      ''for \"--mount\" flag'', ''invalid reference format'', ''permission denied'']"

definition classifyContainerFailure :: "string \<Rightarrow> ErrorClass" where
  "classifyContainerFailure err =
     (let text = toLowerCase err
      in if includesStr text ''unknown flag'' \<or>
            includesStr text ''no such file or directory'' \<or>
            includesStr text ''not found'' \<or>
            includesStr text ''invalid argument'' \<or>
            includesStr text ''for \"--mount\" flag'' \<or>
            includesStr text ''invalid reference format'' \<or>
            includesStr text ''permission denied''
         then Terminal else Transient)"

definition getContainerPathMappings ::
  "string \<Rightarrow> SandboxPathMappingMode \<Rightarrow> string \<times> SandboxPathMapping list" where
  "getContainerPathMappings hostWorkingDir mappingMode =
     (if mappingMode = SamePath
      then (hostWorkingDir, [\<lparr> containerPrefix = hostWorkingDir, hostPrefix = hostWorkingDir \<rparr>])
      else (''/workspace'', [\<lparr> containerPrefix = ''/workspace'', hostPrefix = hostWorkingDir \<rparr>]))"

definition containerNetwork :: "InvocationRequest \<Rightarrow> SandboxMode \<Rightarrow> SandboxNetwork" where
  \<comment> \<open>\<^verbatim>\<open>runtimeCfg.network\<close>, the docker sub-configuration for docker and the apple one otherwise\<close>
  "containerNetwork request m =
     (if m = Docker then network (docker (req_sandbox request))
      else a_network (apple (req_sandbox request)))"

definition containerImage :: "InvocationRequest \<Rightarrow> SandboxMode \<Rightarrow> string" where
  "containerImage request m =
     (if m = Docker then image (docker (req_sandbox request))
      else a_image (apple (req_sandbox request)))"

definition requiredBinaryForMode :: "SandboxMode \<Rightarrow> InvocationRequest \<Rightarrow> string" where
  "requiredBinaryForMode m request =
     (if m = Docker then ''docker''
      else if m = Apple then runtime_command (apple (req_sandbox request))
      else req_command request)"

definition preflight ::
  "InvocationRequest \<Rightarrow> SandboxMode \<Rightarrow> (string \<Rightarrow> string option) \<Rightarrow> SandboxInvocationError option" where
  \<comment> \<open>the checks of \<^verbatim>\<open>runContainer\<close> that throw before the runtime is started\<close>
  "preflight request m env =
     (let requiredEnv = getRequiredEnv (req_provider request);
          allowedEnv = buildAllowedEnv env (env_allowlist (req_sandbox request))
      in if containerNetwork request m = NetNone then
           Some (mkSandboxError
             (''Sandbox mode \"'' @ showMode m @
              ''\" is configured with network=none, which is incompatible with cloud provider CLIs.'')
             Terminal m
             (Some ''Set sandbox network to \"default\" or \"restricted\" in settings.json.'')
             (Some ''Sandbox network is set to \"none\", so cloud model calls are blocked. Update sandbox network settings and retry.''))
         else if requiredEnv \<notin> set (env_allowlist (req_sandbox request)) then
           Some (mkSandboxError
             (''Required API key env \"'' @ requiredEnv @ ''\" is not in sandbox.env_allowlist.'')
             Terminal m
             (Some (''Add \"'' @ requiredEnv @ ''\" to sandbox.env_allowlist in settings.json.''))
             (Some (''Sandbox is missing required env allowlist entry: '' @ requiredEnv @ ''.'')))
         else if orStr (allowedEnv requiredEnv) [] = [] then
           Some (mkSandboxError
             (''Required API key env \"'' @ requiredEnv @ ''\" is not set.'')
             Terminal m
             (Some (''Export '' @ requiredEnv @ '' before starting TinyClaw.''))
             (Some (''Sandbox requires '' @ requiredEnv @ '', but it is not set in the environment.'')))
         else None)"

definition runContainer ::
  "InvocationRequest \<Rightarrow> SandboxMode \<Rightarrow> (string \<Rightarrow> string option) \<Rightarrow> SpawnOutcome
     \<Rightarrow> SandboxInvocationError + InvocationResult" where
  "runContainer request m env outcome =
     (case preflight request m env of
        Some e \<Rightarrow> Inl e
      | None \<Rightarrow>
         (let runtimeBinary = requiredBinaryForMode m request;
              pathMappings = snd (getContainerPathMappings (workingDir request)
                                    (path_mapping_mode (req_sandbox request)))
          in case outcome of
               SpawnFailed errno msg \<Rightarrow>
                 if errno = ''ENOENT'' then
                   Inl (mkSandboxError
                     (''Required runtime \"'' @ runtimeBinary @
                      ''\" is not available for sandbox mode \"'' @ showMode m @ ''\".'')
                     Terminal m
                     (Some (''Install \"'' @ runtimeBinary @ ''\" and run \"tinyclaw sandbox doctor\".''))
                     (Some (''Sandbox runtime \"'' @ runtimeBinary @
                            ''\" is not installed. Run \"tinyclaw sandbox doctor\" after installing it.'')))
                 else
                   Inl (mkSandboxError
                     (''Failed to start '' @ showMode m @ '' runtime: '' @ msg)
                     Terminal m
                     (Some (''Ensure \"'' @ runtimeBinary @ ''\" is installed and available in PATH.''))
                     None)
             | Closed result \<Rightarrow>
                 if timedOut result then
                   Inl (mkSandboxError
                     (showMode m @ '' invocation timed out after '' @
                      showInt (timeout_seconds (req_sandbox request)) @ ''s.'')
                     Transient m
                     (Some ''Increase sandbox.timeout_seconds or optimize the task.'')
                     (Some ''Sandbox execution timed out. Please retry.''))
                 else if code result \<noteq> Some 0 then
                   (let cls = classifyContainerFailure (stderr result)
                    in Inl (mkSandboxError
                         (orStr (Some (trim (stderr result)))
                            (showMode m @ '' runtime exited with code '' @ showCode (code result)))
                         cls m
                         (Some (if cls = Terminal
                                then ''Run \"tinyclaw sandbox doctor\" and verify image \"'' @
                                     containerImage request m @ ''\".''
                                else ''Retry after checking '' @ showMode m @ '' runtime health.''))
                         (Some (if cls = Terminal
                                then ''Sandbox runtime error in '' @ showMode m @
                                     '' mode. Run \"tinyclaw sandbox doctor\".''
                                else ''Sandbox execution failed due to a transient runtime issue. Please retry.''))))
                 else
                   Inr \<lparr> res_stdout = stdout result, res_stderr = stderr result,
                         res_durationMs = durationMs result, res_mode = m,
                         res_pathMappings = pathMappings \<rparr>))"

section \<open>Provider output (\<^verbatim>\<open>lib/invoke.ts\<close>)\<close>

text \<open>
  A parsed JSON document. \<^verbatim>\<open>JSON.parse\<close> itself belongs to the JavaScript runtime: the
  functions below take it as the parameter \<open>parse\<close>, with \<^const>\<open>None\<close> for the lines on
  which it throws. A property that is absent reads as \<^verbatim>\<open>undefined\<close>, here \<^const>\<open>None\<close>.
\<close>

datatype json =
    JNull
  | JBool bool
  | JNum real
  | JStr string
  | JArr "json list"
  | JObj "(string \<times> json) list"









section \<open>The file queue\<close>

text \<open>
  The four queue directories hold one file per message. A path is a directory and a file
  name; a file holds the JSON text of a message, of a response or of a dead-letter record,
  or text that \<^verbatim>\<open>JSON.parse\<close> rejects. The state of the queue is the association list of
  its files, the log of the file-system calls made so far, and the paths on which the host
  refuses a write (any \<^verbatim>\<open>fs\<close> call may throw).
\<close>

datatype QueueDir = QUEUE_INCOMING | QUEUE_PROCESSING | QUEUE_OUTGOING | QUEUE_DEAD_LETTER

type_synonym qpath = "QueueDir \<times> string"

record MessageData =
  channel :: string
  sender :: string
  senderId :: "string option"
  message :: string
  timestamp :: nat
  messageId :: string
  agent :: "string option"
  files :: "string list option"
  attempt :: "int option"
  firstSeenAt :: "nat option"
  errorClass :: "ErrorClass option"

record ResponseData =
  r_channel :: string
  r_sender :: string
  r_message :: string
  r_originalMessage :: string
  r_timestamp :: nat
  r_messageId :: string
  r_agent :: "string option"
  r_files :: "string list option"

record DeadLetterData =
  failedAt :: nat
  d_errorClass :: ErrorClass
  d_errorMessage :: string
  d_attempt :: int
  d_maxAttempts :: int
  d_payload :: "MessageData option"

datatype content =
    MessageJson MessageData
  | ResponseJson ResponseData
  | DeadLetterJson DeadLetterData
  | Unparseable string

datatype fs_op = WriteFile qpath content | Rename qpath qpath | Unlink qpath

datatype fs_error = ENOENT | EACCES

record QueueFs =
  entries :: "(qpath \<times> content) list"
  oplog :: "fs_op list"
  unwritable :: "qpath list"

definition existsSync :: "QueueFs \<Rightarrow> qpath \<Rightarrow> bool" where
  "existsSync st p \<longleftrightarrow> map_of (entries st) p \<noteq> None"

definition writeFileSync :: "QueueFs \<Rightarrow> qpath \<Rightarrow> content \<Rightarrow> fs_error + QueueFs" where
  "writeFileSync st p c =
     (if p \<in> set (unwritable st) then Inl EACCES
      else Inr (st\<lparr> entries := AList.update p c (entries st),
                    oplog := oplog st @ [WriteFile p c] \<rparr>))"

definition renameSync :: "QueueFs \<Rightarrow> qpath \<Rightarrow> qpath \<Rightarrow> fs_error + QueueFs" where
  "renameSync st src dst =
     (case map_of (entries st) src of
        None \<Rightarrow> Inl ENOENT
      | Some c \<Rightarrow>
          if dst \<in> set (unwritable st) then Inl EACCES
          else Inr (st\<lparr> entries := AList.update dst c (AList.delete src (entries st)),
                        oplog := oplog st @ [Rename src dst] \<rparr>))"

definition unlinkSync :: "QueueFs \<Rightarrow> qpath \<Rightarrow> fs_error + QueueFs" where
  "unlinkSync st p =
     (if existsSync st p
      then Inr (st\<lparr> entries := AList.delete p (entries st), oplog := oplog st @ [Unlink p] \<rparr>)
      else Inl ENOENT)"

definition readdirSync :: "QueueFs \<Rightarrow> QueueDir \<Rightarrow> string list" where
  "readdirSync st d = map (snd \<circ> fst) (filter (\<lambda>e. fst (fst e) = d) (entries st))"

definition recoverStep :: "QueueFs \<Rightarrow> string \<Rightarrow> QueueFs" where
  \<comment> \<open>the body of the loop of \<^verbatim>\<open>recoverOrphanedFiles\<close>: a failed rename is logged and skipped\<close>
  "recoverStep st f =
     (case renameSync st (QUEUE_PROCESSING, f) (QUEUE_INCOMING, f) of
        Inr st' \<Rightarrow> st'
      | Inl e \<Rightarrow> st)"

definition recoverOrphanedFiles :: "QueueFs \<Rightarrow> QueueFs" where
  "recoverOrphanedFiles st =
     foldl recoverStep st
       (filter (\<lambda>f. endsWith f ''.json'') (readdirSync st QUEUE_PROCESSING))"

definition responseFileName :: "string \<Rightarrow> string \<Rightarrow> nat \<Rightarrow> string" where
  "responseFileName chan mid now =
     (if chan = ''heartbeat'' then mid @ ''.json''
      else chan @ ''_'' @ mid @ ''_'' @ showNat now @ ''.json'')"

definition writeOutgoingResponse ::
  "nat \<Rightarrow> QueueFs \<Rightarrow> string \<Rightarrow> string \<Rightarrow> string \<Rightarrow> string \<Rightarrow> string \<Rightarrow> string option
     \<Rightarrow> string list option \<Rightarrow> fs_error + QueueFs" where
  \<comment> \<open>\<open>now\<close> is the value of \<^verbatim>\<open>Date.now()\<close>\<close>
  "writeOutgoingResponse now st chan sndr msg originalMessage mid agentId fls =
     (let responseData =
            \<lparr> r_channel = chan, r_sender = sndr, r_message = msg,
              r_originalMessage = originalMessage, r_timestamp = now, r_messageId = mid,
              r_agent = agentId,
              r_files = (case fls of
                           None \<Rightarrow> None
                         | Some l \<Rightarrow> if length l > 0 then Some l else None) \<rparr>;
          responseFile = (QUEUE_OUTGOING, responseFileName chan mid now)
      in writeFileSync st responseFile (ResponseJson responseData))"

definition basenameExt :: "string \<Rightarrow> string \<Rightarrow> string" where
  \<comment> \<open>\<^verbatim>\<open>path.basename(p, ext)\<close> on a file name without directory part\<close>
  "basenameExt f ext =
     (if endsWith f ext \<and> length ext < length f then take (length f - length ext) f else f)"

definition deadLetterFileName :: "string \<Rightarrow> nat \<Rightarrow> string" where
  "deadLetterFileName f now = basenameExt f ''.json'' @ ''_'' @ showNat now @ ''.json''"

definition writeDeadLetter ::
  "nat \<Rightarrow> QueueFs \<Rightarrow> string \<Rightarrow> MessageData option \<Rightarrow> ErrorClass \<Rightarrow> string \<Rightarrow> int \<Rightarrow> int
     \<Rightarrow> fs_error + QueueFs" where
  "writeDeadLetter now st processingFile payload cls errorMessage att maxAttempts =
     (let deadLetterFile = (QUEUE_DEAD_LETTER, deadLetterFileName processingFile now);
          deadLetterData =
            \<lparr> failedAt = now, d_errorClass = cls, d_errorMessage = errorMessage,
              d_attempt = att, d_maxAttempts = maxAttempts, d_payload = payload \<rparr>
      in writeFileSync st deadLetterFile (DeadLetterJson deadLetterData))"

text \<open>
  Two ways for a file to come to stand at a path, read off the log of file-system calls:
  written there by \<^verbatim>\<open>writeFileSync\<close>, or moved there by \<^verbatim>\<open>renameSync\<close>.
\<close>

fun writesTo :: "qpath \<Rightarrow> fs_op \<Rightarrow> bool" where
  "writesTo p (WriteFile q c) = (q = p)"
| "writesTo p (Rename src dst) = False"
| "writesTo p (Unlink q) = False"

fun renamesTo :: "qpath \<Rightarrow> fs_op \<Rightarrow> bool" where
  "renamesTo p (WriteFile q c) = False"
| "renamesTo p (Rename src dst) = (dst = p)"
| "renamesTo p (Unlink q) = False"

definition writtenDirectly :: "fs_op list \<Rightarrow> qpath \<Rightarrow> bool" where
  "writtenDirectly ops p \<longleftrightarrow> filter (writesTo p) ops \<noteq> []"

definition renamedInto :: "fs_op list \<Rightarrow> qpath \<Rightarrow> bool" where
  "renamedInto ops p \<longleftrightarrow> filter (renamesTo p) ops \<noteq> []"

section \<open>Outbound file tags\<close>

text \<open>
  The host on which the processor runs: the separator, \<^verbatim>\<open>path.isAbsolute\<close> and
  \<^verbatim>\<open>path.join\<close> of the platform's \<^verbatim>\<open>path\<close> module, and \<^verbatim>\<open>fs.existsSync\<close> on the
  host's files. The functions below hold for every host; \<open>posixHost\<close> is the one with
  POSIX paths.
\<close>

record Host =
  sep :: string
  isAbsolute :: "string \<Rightarrow> bool"
  pathJoin :: "string \<Rightarrow> string \<Rightarrow> string"
  hostExists :: "string \<Rightarrow> bool"

fun normalizeSegments :: "bool \<Rightarrow> string list \<Rightarrow> string list \<Rightarrow> string list" where
  \<comment> \<open>\<^verbatim>\<open>normalizeString\<close> of the \<^verbatim>\<open>path\<close> module, segment by segment\<close>
  "normalizeSegments allowAboveRoot res [] = res"
| "normalizeSegments allowAboveRoot res (s # ss) =
     (if s = [] \<or> s = ''.'' then normalizeSegments allowAboveRoot res ss
      else if s = ''..'' then
        (if res \<noteq> [] \<and> last res \<noteq> ''..'' then normalizeSegments allowAboveRoot (butlast res) ss
         else if allowAboveRoot then normalizeSegments allowAboveRoot (res @ [''..'']) ss
         else normalizeSegments allowAboveRoot res ss)
      else normalizeSegments allowAboveRoot (res @ [s]) ss)"

definition posixNormalize :: "string \<Rightarrow> string" where
  "posixNormalize p =
     (if p = [] then ''.''
      else
        (let absolute = (hd p = CHR ''/'');
             trailingSeparator = (last p = CHR ''/'');
             r = joinWith ''/'' (normalizeSegments (\<not> absolute) [] (splitOn CHR ''/'' p))
         in if r = [] then (if absolute then ''/'' else if trailingSeparator then ''./'' else ''.'')
            else (if absolute then ''/'' else []) @ r @ (if trailingSeparator then ''/'' else [])))"

definition posixJoin :: "string \<Rightarrow> string \<Rightarrow> string" where
  "posixJoin a b =
     (if a = [] \<and> b = [] then ''.''
      else if a = [] then posixNormalize b
      else if b = [] then posixNormalize a
      else posixNormalize (a @ ''/'' @ b))"

definition posixHost :: "(string \<Rightarrow> bool) \<Rightarrow> Host" where
  "posixHost ex =
     \<lparr> sep = ''/'', isAbsolute = (\<lambda>p. p \<noteq> [] \<and> hd p = CHR ''/''),
       pathJoin = posixJoin, hostExists = ex \<rparr>"

definition stripLeadingSlash :: "string \<Rightarrow> string" where
  \<comment> \<open>\<^verbatim>\<open>s.replace(/^[\\/]/, '')\<close>\<close>
  "stripLeadingSlash s =
     (case s of [] \<Rightarrow> [] | c # cs \<Rightarrow> if c = CHR 0x5C \<or> c = CHR ''/'' then cs else s)"

definition mappingPrefix :: "Host \<Rightarrow> SandboxPathMapping \<Rightarrow> string" where
  "mappingPrefix h mapping =
     (if endsWith (containerPrefix mapping) (sep h) then containerPrefix mapping
      else containerPrefix mapping @ sep h)"

definition mappingApplies :: "Host \<Rightarrow> string \<Rightarrow> SandboxPathMapping \<Rightarrow> bool" where
  "mappingApplies h trimmed mapping \<longleftrightarrow>
     trimmed = containerPrefix mapping \<or> startsWith trimmed (mappingPrefix h mapping)"

definition mappedHostPath :: "Host \<Rightarrow> string \<Rightarrow> SandboxPathMapping \<Rightarrow> string" where
  "mappedHostPath h trimmed mapping =
     (let suffix = stripLeadingSlash (drop (length (containerPrefix mapping)) trimmed)
      in if suffix \<noteq> [] then pathJoin h (hostPrefix mapping) suffix else hostPrefix mapping)"

fun resolveMappings :: "Host \<Rightarrow> string \<Rightarrow> SandboxPathMapping list \<Rightarrow> string option" where
  \<comment> \<open>the \<^verbatim>\<open>for\<close> loop of \<^verbatim>\<open>resolveSandboxPath\<close>\<close>
  "resolveMappings h trimmed [] = None"
| "resolveMappings h trimmed (mapping # rest) =
     (if mappingApplies h trimmed mapping
      then (let hostPath = mappedHostPath h trimmed mapping
            in if hostExists h hostPath then Some hostPath else resolveMappings h trimmed rest)
      else resolveMappings h trimmed rest)"

definition resolveSandboxPath :: "Host \<Rightarrow> string \<Rightarrow> SandboxPathMapping list \<Rightarrow> string option" where
  "resolveSandboxPath h filePath pathMappings =
     (let trimmed = trim filePath
      in if \<not> isAbsolute h trimmed then None
         else if hostExists h trimmed then Some trimmed
         else resolveMappings h trimmed pathMappings)"

text \<open>
  A match of \<^verbatim>\<open>/\[send_file:\s*([^\]]+)\]/\<close> at the head of a string: the captured group and
  the length of the match. The greedy \<^verbatim>\<open>\s*\<close> gives back its last character when nothing
  but white space stands before the closing bracket.
\<close>

definition matchSendFile :: "string \<Rightarrow> (string \<times> nat) option" where
  "matchSendFile s =
     (if startsWith s ''[send_file:'' then
        (let r = drop 11 s;
             body = takeWhile (\<lambda>c. c \<noteq> CHR '']'') r
         in if body = [] \<or> length body = length r then None
            else Some (let b = dropWhile isSpace body in if b = [] then [last body] else b,
                       11 + length body + 1))
      else None)"

fun execAll :: "string \<Rightarrow> string list" where
  \<comment> \<open>the groups captured by the successive \<^verbatim>\<open>fileRefRegex.exec\<close> calls\<close>
  "execAll [] = []"
| "execAll (c # cs) =
     (case matchSendFile (c # cs) of
        Some (cap, n) \<Rightarrow> cap # execAll (drop (n - 1) cs)
      | None \<Rightarrow> execAll cs)"

fun removeTags :: "string \<Rightarrow> string" where
  \<comment> \<open>\<^verbatim>\<open>responseText.replace(fileRefRegex, '')\<close>\<close>
  "removeTags [] = []"
| "removeTags (c # cs) =
     (case matchSendFile (c # cs) of
        Some (cap, n) \<Rightarrow> removeTags (drop (n - 1) cs)
      | None \<Rightarrow> c # removeTags cs)"

definition setAdd :: "string list \<Rightarrow> string \<Rightarrow> string list" where
  \<comment> \<open>\<^verbatim>\<open>Set.prototype.add\<close>, the set kept in insertion order\<close>
  "setAdd xs x = (if x \<in> set xs then xs else xs @ [x])"

definition fileStep ::
  "Host \<Rightarrow> SandboxPathMapping list \<Rightarrow> string list \<times> string list \<Rightarrow> string
     \<Rightarrow> string list \<times> string list" where
  \<comment> \<open>the body of the \<^verbatim>\<open>while\<close> loop, on the set \<^verbatim>\<open>files\<close> and the list \<^verbatim>\<open>missing\<close>\<close>
  "fileStep h pathMappings acc cap =
     (let rawPath = trim cap;
          resolved = resolveSandboxPath h rawPath pathMappings
      in case resolved of
           None \<Rightarrow> (fst acc, snd acc @ [rawPath])
         | Some p \<Rightarrow> if p \<noteq> [] then (setAdd (fst acc) p, snd acc)
                     else (fst acc, snd acc @ [rawPath]))"

record OutboundFiles =
  cleanText :: string
  o_files :: "string list"
  missing :: "string list"

definition parseOutboundFiles :: "Host \<Rightarrow> string \<Rightarrow> SandboxPathMapping list \<Rightarrow> OutboundFiles" where
  "parseOutboundFiles h responseText pathMappings =
     (let acc = foldl (fileStep h pathMappings) ([], []) (execAll responseText)
      in \<lparr> cleanText = trim (removeTags responseText), o_files = fst acc, missing = snd acc \<rparr>)"

definition warningHeader :: string where
  "warningHeader = [CHR 0x0A, CHR 0x0A] @ ''[Warning: Some files could not be found for attachment]'' @ [CHR 0x0A]"

definition warningLines :: "string list \<Rightarrow> string list" where
  \<comment> \<open>\<^verbatim>\<open>missing.slice(0, 3).map(f => `- ${f}`)\<close>, the lines that the warning shows\<close>
  "warningLines miss = map (\<lambda>f. ''- '' @ f) (take 3 miss)"

definition appendWarning :: "string \<Rightarrow> string list \<Rightarrow> string" where
  "appendWarning finalResponse miss =
     (if length miss > 0
      then (let shown = joinWith [CHR 0x0A] (warningLines miss)
            in trim (finalResponse @ warningHeader @ shown))
      else finalResponse)"



definition beforeLimit :: "Host \<Rightarrow> string \<Rightarrow> SandboxPathMapping list \<Rightarrow> string" where
  \<comment> \<open>the value of \<^verbatim>\<open>finalResponse\<close> when the length limit is reached: tags removed, warning added\<close>
  "beforeLimit h finalResponse allPathMappings =
     (let parsedFiles = parseOutboundFiles h (trim finalResponse) allPathMappings
      in appendWarning (cleanText parsedFiles) (missing parsedFiles))"


definition tagPaths :: "string \<Rightarrow> string list" where
  \<comment> \<open>the value of \<^verbatim>\<open>rawPath\<close> for each tag of a text, in the order of the tags\<close>
  "tagPaths responseText = map trim (execAll responseText)"

definition attachment :: "Host \<Rightarrow> SandboxPathMapping list \<Rightarrow> string \<Rightarrow> string option" where
  \<comment> \<open>the host path a tagged path resolves to, when \<^verbatim>\<open>if (resolved)\<close> takes it as found\<close>
  "attachment h pathMappings rawPath =
     (case resolveSandboxPath h rawPath pathMappings of
        None \<Rightarrow> None
      | Some p \<Rightarrow> if p \<noteq> [] then Some p else None)"


section \<open>Team chains\<close>

text \<open>
  \<^verbatim>\<open>invokeAgent\<close> runs a provider command: its answer comes from outside the program. It is
  the parameter \<open>invoke\<close>, a function of the agent id, the message and the state \<open>'w\<close> of
  the world around the processor (conversations, reset flags, clock), returning the new
  world. \<^verbatim>\<open>extractTeammateMentions\<close> of \<^verbatim>\<open>lib/routing.ts\<close> is the parameter \<open>ex\<close>, a
  function of the response and of the id of the agent that gave it (the team and the
  agents do not change while one message is processed). A fan-out is modelled in mention
  order: \<^verbatim>\<open>Promise.all\<close> returns the results in that order whatever the order of completion.
\<close>

datatype ProcessingError = SandboxError SandboxInvocationError | OtherError string string

record ChainStep =
  agentId :: string
  response :: string

record Mention =
  teammateId :: string
  m_message :: string

record AgentInvocationResult =
  inv_response :: string
  inv_pathMappings :: "SandboxPathMapping list"
  inv_sandboxMode :: SandboxMode

type_synonym 'w invoker =
  "string \<Rightarrow> string \<Rightarrow> 'w \<Rightarrow> (ProcessingError + AgentInvocationResult) \<times> 'w"

record 'w ChainState =
  chainSteps :: "ChainStep list"
  currentAgentId :: string
  currentMessage :: string
  allPathMappings :: "SandboxPathMapping list"
  world :: 'w

datatype 'w Iteration = Continue "'w ChainState" | Break "'w ChainState" | Throw ProcessingError 'w

definition teammateMessage :: "string \<Rightarrow> string \<Rightarrow> string" where
  "teammateMessage prev msg = ''[Message from teammate @'' @ prev @ '']:'' @ [CHR 0x0A] @ msg"

fun fanOut ::
  "'w invoker \<Rightarrow> (string \<Rightarrow> AgentConfig option) \<Rightarrow> string \<Rightarrow> Mention list \<Rightarrow> 'w
     \<Rightarrow> (ProcessingError + ChainStep list \<times> SandboxPathMapping list) \<times> 'w" where
  "fanOut invoke agents cur [] w = (Inr ([], []), w)"
| "fanOut invoke agents cur (mention # rest) w =
     (case agents (teammateId mention) of
        None \<Rightarrow>
          (case fanOut invoke agents cur rest w of
             (Inl e, w') \<Rightarrow> (Inl e, w')
           | (Inr (steps, maps), w') \<Rightarrow>
               (Inr (\<lparr> agentId = teammateId mention,
                        response = ''Error: agent '' @ teammateId mention @ '' not found'' \<rparr> # steps,
                     maps), w'))
      | Some mAgent \<Rightarrow>
          (case invoke (teammateId mention) (teammateMessage cur (m_message mention)) w of
             (Inl e, w') \<Rightarrow> (Inl e, w')
           | (Inr mResult, w') \<Rightarrow>
               (case fanOut invoke agents cur rest w' of
                  (Inl e, w'') \<Rightarrow> (Inl e, w'')
                | (Inr (steps, maps), w'') \<Rightarrow>
                    (Inr (\<lparr> agentId = teammateId mention, response = inv_response mResult \<rparr> # steps,
                          inv_pathMappings mResult @ maps), w''))))"

definition chainIteration ::
  "'w invoker \<Rightarrow> (string \<Rightarrow> string \<Rightarrow> Mention list) \<Rightarrow> (string \<Rightarrow> AgentConfig option)
     \<Rightarrow> 'w ChainState \<Rightarrow> 'w Iteration" where
  \<comment> \<open>one round of the \<^verbatim>\<open>while (true)\<close> loop of the chain\<close>
  "chainIteration invoke ex agents cs =
     (case agents (currentAgentId cs) of
        None \<Rightarrow> Break cs
      | Some currentAgent \<Rightarrow>
          (case invoke (currentAgentId cs) (currentMessage cs) (world cs) of
             (Inl e, w) \<Rightarrow> Throw e w
           | (Inr stepResult, w) \<Rightarrow>
               (let stepResponse = inv_response stepResult;
                    maps = allPathMappings cs @ inv_pathMappings stepResult;
                    steps = chainSteps cs @
                      [\<lparr> agentId = currentAgentId cs, response = stepResponse \<rparr>];
                    teammateMentions = ex stepResponse (currentAgentId cs)
                in if length teammateMentions = 0 then
                     Break (cs\<lparr> chainSteps := steps, allPathMappings := maps, world := w \<rparr>)
                   else if length teammateMentions = 1 then
                     Continue (cs\<lparr> chainSteps := steps, allPathMappings := maps, world := w,
                                    currentAgentId := teammateId (teammateMentions ! 0),
                                    currentMessage :=
                                      teammateMessage (agentId (steps ! (length steps - 1)))
                                        (m_message (teammateMentions ! 0)) \<rparr>)
                   else
                     (case fanOut invoke agents (currentAgentId cs) teammateMentions w of
                        (Inl e, w') \<Rightarrow> Throw e w'
                      | (Inr (fanOutResults, fanMaps), w') \<Rightarrow>
                          Break (cs\<lparr> chainSteps := steps @ fanOutResults,
                                      allPathMappings := maps @ fanMaps, world := w' \<rparr>)))))"

partial_function (option) teamChain ::
  "'w invoker \<Rightarrow> (string \<Rightarrow> string \<Rightarrow> Mention list) \<Rightarrow> (string \<Rightarrow> AgentConfig option)
     \<Rightarrow> 'w ChainState \<Rightarrow> (ProcessingError \<times> 'w + 'w ChainState) option" where
  "teamChain invoke ex agents cs =
     (case chainIteration invoke ex agents cs of
        Continue cs' \<Rightarrow> teamChain invoke ex agents cs'
      | Break cs' \<Rightarrow> Some (Inr cs')
      | Throw e w \<Rightarrow> Some (Inl (e, w)))"

definition chainSeparator :: string where
  "chainSeparator = [CHR 0x0A, CHR 0x0A] @ ''---'' @ [CHR 0x0A, CHR 0x0A]"

definition aggregate :: "ChainStep list \<Rightarrow> string" where
  "aggregate steps =
     (if length steps = 1 then response (steps ! 0)
      else joinWith chainSeparator
             (map (\<lambda>step. ''@'' @ agentId step @ '': '' @ response step) steps))"

definition startChain :: "string \<Rightarrow> string \<Rightarrow> 'w \<Rightarrow> 'w ChainState" where
  "startChain agentId0 message0 w =
     \<lparr> chainSteps = [], currentAgentId = agentId0, currentMessage = message0,
       allPathMappings = [], world = w \<rparr>"

section \<open>Completing and failing a message\<close>


definition matchSecret :: "string \<Rightarrow> (string \<times> nat) option" where
  \<comment> \<open>a match of \<^verbatim>\<open>/(ANTHROPIC_API_KEY|OPENAI_API_KEY)=\S+/\<close> at the head of a string\<close>
  "matchSecret s =
     (let try = (\<lambda>key.
            let v = takeWhile (\<lambda>c. \<not> isSpace c) (drop (length key + 1) s)
            in if startsWith s (key @ ''='') \<and> v \<noteq> []
               then Some (key, length key + 1 + length v) else None)
      in case try ''ANTHROPIC_API_KEY'' of
           Some r \<Rightarrow> Some r
         | None \<Rightarrow> try ''OPENAI_API_KEY'')"

fun redact :: "string \<Rightarrow> string" where
  "redact [] = []"
| "redact (c # cs) =
     (case matchSecret (c # cs) of
        Some (key, n) \<Rightarrow> key @ ''=[REDACTED]'' @ redact (drop (n - 1) cs)
      | None \<Rightarrow> c # redact cs)"

definition toSafeErrorMessage :: "ProcessingError \<Rightarrow> string" where
  \<comment> \<open>an error with an empty message prints as its name\<close>
  "toSafeErrorMessage err =
     redact (case err of
               SandboxError e \<Rightarrow> orStr (Some (err_message e)) ''SandboxInvocationError''
             | OtherError name msg \<Rightarrow> orStr (Some msg) name)"

record ErrorContext =
  channelForError :: string
  senderForError :: string
  messageIdForError :: string
  rawMessageForError :: string
  agentIdForError :: "string option"

definition errorClassOf :: "ProcessingError \<Rightarrow> ErrorClass" where
  "errorClassOf err = (case err of SandboxError e \<Rightarrow> classification e | OtherError n m \<Rightarrow> Transient)"

definition attemptOf :: "MessageData option \<Rightarrow> int" where
  \<comment> \<open>\<^verbatim>\<open>(messageData?.attempt || 0) + 1\<close>\<close>
  "attemptOf messageData = orNum (Option.bind messageData attempt) 0 + 1"

definition retryData :: "nat \<Rightarrow> MessageData \<Rightarrow> int \<Rightarrow> MessageData" where
  "retryData now md att =
     md\<lparr> attempt := Some att, errorClass := Some Transient,
         firstSeenAt := (case firstSeenAt md of
                           None \<Rightarrow> Some now
                         | Some t \<Rightarrow> if t = 0 then Some now else Some t) \<rparr>"

definition shouldRetry :: "Settings \<Rightarrow> QueueFs \<Rightarrow> string \<Rightarrow> MessageData option \<Rightarrow> ProcessingError \<Rightarrow> bool" where
  \<comment> \<open>the condition of the retry branch\<close>
  "shouldRetry settings st f messageData err \<longleftrightarrow>
     errorClassOf err \<noteq> Terminal \<and>
     \<not> (attemptOf messageData \<ge> max_attempts (getSandboxConfig settings None)) \<and>
     messageData \<noteq> None \<and>
     existsSync st (QUEUE_PROCESSING, f)"

definition failureUserMessage :: "ProcessingError \<Rightarrow> string" where
  "failureUserMessage err =
     (case err of
        SandboxError e \<Rightarrow> userMessage e
      | OtherError n m \<Rightarrow>
          if errorClassOf err = Terminal
          then ''Sandbox execution failed due to a configuration error. Run \"tinyclaw sandbox doctor\".''
          else ''Sorry, I encountered repeated execution failures and moved this message to the dead-letter queue.'')"

definition deadLetterMessage ::
  "Settings \<Rightarrow> nat \<Rightarrow> QueueFs \<Rightarrow> string \<Rightarrow> MessageData option \<Rightarrow> int \<Rightarrow> ErrorContext
     \<Rightarrow> ProcessingError \<Rightarrow> fs_error + QueueFs" where
  \<comment> \<open>the \<^verbatim>\<open>catch\<close> block after the retry branch; \<open>att\<close> is the attempt computed at its start\<close>
  "deadLetterMessage settings now st f messageData att ctx err =
     (case writeDeadLetter now st f messageData
             (if errorClassOf err = Terminal then Terminal else Transient)
             (toSafeErrorMessage err) att (max_attempts (getSandboxConfig settings None)) of
        Inl e \<Rightarrow> Inl e
      | Inr st1 \<Rightarrow>
          (let st2 =
                 (case messageData of
                    None \<Rightarrow> st1
                  | Some md \<Rightarrow>
                      if channelForError ctx \<noteq> [] \<and> senderForError ctx \<noteq> [] \<and>
                         messageIdForError ctx \<noteq> []
                      then (case writeOutgoingResponse now st1 (channelForError ctx)
                                   (senderForError ctx) (failureUserMessage err)
                                   (orStr (Some (rawMessageForError ctx)) (message md))
                                   (messageIdForError ctx) (agentIdForError ctx) None of
                              Inr st' \<Rightarrow> st'
                            | Inl e \<Rightarrow> st1)
                      else st1)
           in if existsSync st2 (QUEUE_PROCESSING, f)
              then unlinkSync st2 (QUEUE_PROCESSING, f)
              else Inr st2))"

definition handleProcessingError ::
  "Settings \<Rightarrow> nat \<Rightarrow> QueueFs \<Rightarrow> string \<Rightarrow> MessageData option \<Rightarrow> ErrorContext
     \<Rightarrow> ProcessingError \<Rightarrow> fs_error + QueueFs" where
  \<comment> \<open>the \<^verbatim>\<open>catch\<close> block of \<^verbatim>\<open>processMessage\<close> for the queue file named \<open>f\<close>; logging left out\<close>
  "handleProcessingError settings now st f messageData ctx err =
     (let att = attemptOf messageData
      in case messageData of
           None \<Rightarrow> deadLetterMessage settings now st f messageData att ctx err
         | Some md \<Rightarrow>
             if shouldRetry settings st f messageData err then
               (let md' = retryData now md att
                in case writeFileSync st (QUEUE_PROCESSING, f) (MessageJson md') of
                     Inl e \<Rightarrow> deadLetterMessage settings now st f (Some md') att ctx err
                   | Inr st1 \<Rightarrow>
                       (case renameSync st1 (QUEUE_PROCESSING, f) (QUEUE_INCOMING, f) of
                          Inl e \<Rightarrow> deadLetterMessage settings now st1 f (Some md') att ctx err
                        | Inr st2 \<Rightarrow> Inr st2))
             else deadLetterMessage settings now st f messageData att ctx err)"

section \<open>Example inputs\<close>

definition exSettings :: Settings where
  "exSettings = \<lparr> sandbox = Some (emptyConfig\<lparr> cfg_mode := Some Docker \<rparr>) \<rparr>"

definition exRequest :: InvocationRequest where
  "exRequest =
     \<lparr> req_agentId = ''coder'', req_provider = ''anthropic'', req_command = ''claude'',
       req_args = [''-p'', ''hi''], workingDir = ''/home/u/ws/coder'',
       req_sandbox = getSandboxConfig exSettings None \<rparr>"

definition exEnv :: "string \<Rightarrow> string option" where
  "exEnv = [''ANTHROPIC_API_KEY'' \<mapsto> ''sk-1'']"

definition exTimedOut :: ProcessResult where
  "exTimedOut = \<lparr> stdout = [], stderr = ''image not found'', code = None, timedOut = True,
                  durationMs = 600000 \<rparr>"

definition exBadImage :: ProcessResult where
  "exBadImage = \<lparr> stdout = [], stderr = ''docker: Invalid Reference Format.'', code = Some 125,
                  timedOut = False, durationMs = 40 \<rparr>"

definition exNetwork :: ProcessResult where
  "exNetwork = \<lparr> stdout = [], stderr = ''temporary network failure'', code = Some 1,
                 timedOut = False, durationMs = 40 \<rparr>"






definition exMessage :: MessageData where
  "exMessage =
     \<lparr> channel = ''telegram'', sender = ''u'', senderId = None, message = ''hello'',
       timestamp = 1700000000000, messageId = ''m1'', agent = None, files = None,
       attempt = None, firstSeenAt = None, errorClass = None \<rparr>"

definition exStrayQueue :: QueueFs where
  \<comment> \<open>a message left in processing by a crash, beside a file that is not a \<^verbatim>\<open>.json\<close> file\<close>
  "exStrayQueue =
     \<lparr> entries = [((QUEUE_PROCESSING, ''note.txt''), Unparseable ''x''),
                 ((QUEUE_PROCESSING, ''telegram_m1.json''), MessageJson exMessage)],
       oplog = [], unwritable = [] \<rparr>"

definition exQueue :: QueueFs where
  \<comment> \<open>the message \<open>exMessage\<close> claimed for processing\<close>
  "exQueue =
     \<lparr> entries = [((QUEUE_PROCESSING, ''telegram_m1.json''), MessageJson exMessage)],
       oplog = [], unwritable = [] \<rparr>"

definition exNoFiles :: "string \<Rightarrow> bool" where
  "exNoFiles p = False"

definition exHost :: Host where
  \<comment> \<open>a POSIX host on which no tagged file exists\<close>
  "exHost = posixHost exNoFiles"

definition exOnlyRelative :: "string \<Rightarrow> bool" where
  "exOnlyRelative p \<longleftrightarrow> p = ''out.png''"

definition exRelHost :: Host where
  \<comment> \<open>a POSIX host on which \<^verbatim>\<open>out.png\<close> exists in the working directory of the processor\<close>
  "exRelHost = posixHost exOnlyRelative"



definition exMappings :: "SandboxPathMapping list" where
  "exMappings = [\<lparr> containerPrefix = ''/workspace'', hostPrefix = ''/home/u/ws/coder'' \<rparr>]"

definition exDefaultSettings :: Settings where
  "exDefaultSettings = \<lparr> sandbox = None \<rparr>"

definition exGarbageQueue :: QueueFs where
  \<comment> \<open>a claimed file whose text \<^verbatim>\<open>JSON.parse\<close> rejects\<close>
  "exGarbageQueue =
     \<lparr> entries = [((QUEUE_PROCESSING, ''telegram_m1.json''), Unparseable ''{'')],
       oplog = [], unwritable = [] \<rparr>"

definition exNoContext :: ErrorContext where
  \<comment> \<open>the \<^verbatim>\<open>...ForError\<close> variables before the message has been read\<close>
  "exNoContext =
     \<lparr> channelForError = [], senderForError = [], messageIdForError = [],
       rawMessageForError = [], agentIdForError = None \<rparr>"

definition exContext :: ErrorContext where
  "exContext =
     \<lparr> channelForError = ''telegram'', senderForError = ''u'', messageIdForError = ''m1'',
       rawMessageForError = ''hello'', agentIdForError = Some ''default'' \<rparr>"

definition exSyntaxError :: ProcessingError where
  "exSyntaxError = OtherError ''SyntaxError'' ''Unexpected end of JSON input''"

definition exTransientError :: ProcessingError where
  "exTransientError =
     SandboxError (mkSandboxError ''temporary network failure'' Transient Docker None
       (Some ''Sandbox execution failed due to a transient runtime issue. Please retry.''))"

definition exTerminalError :: ProcessingError where
  "exTerminalError =
     SandboxError (mkSandboxError ''invalid reference format'' Terminal Docker None
       (Some ''Sandbox runtime error in docker mode. Run \"tinyclaw sandbox doctor\".''))"

definition exClaimed :: MessageData where
  \<comment> \<open>\<open>exMessage\<close> as \<^verbatim>\<open>processMessage\<close> holds it after reading: the defaults are filled in\<close>
  "exClaimed = exMessage\<lparr> attempt := Some 0, firstSeenAt := Some 1700000000000 \<rparr>"

definition exAgent :: "string \<Rightarrow> AgentConfig" where
  "exAgent n =
     \<lparr> agent_name = n, provider = ''anthropic'', model = ''sonnet'', working_directory = n,
       sandbox_mode = None \<rparr>"

definition exAgents :: "string \<Rightarrow> AgentConfig option" where
  "exAgents =
     map_of [(''lead'', exAgent ''Lead''), (''coder'', exAgent ''Coder''),
             (''a'', exAgent ''A''), (''b'', exAgent ''B'')]"

definition exReply :: "string \<Rightarrow> AgentInvocationResult" where
  "exReply r = \<lparr> inv_response = r, inv_pathMappings = [], inv_sandboxMode = Host \<rparr>"

definition exInvoke :: "nat invoker" where
  \<comment> \<open>agents with fixed answers; the world counts the invocations\<close>
  "exInvoke aid msg w =
     (Inr (exReply (if aid = ''lead'' then ''@coder implement X'' else ''done'')), Suc w)"

definition exExtract :: "string \<Rightarrow> string \<Rightarrow> Mention list" where
  "exExtract resp self =
     (if resp = ''@coder implement X''
      then [\<lparr> teammateId = ''coder'', m_message = ''implement X'' \<rparr>] else [])"

definition exInvokeFan :: "nat invoker" where
  "exInvokeFan aid msg w =
     (Inr (exReply (if aid = ''lead'' then ''@a do A @b do B''
                    else if aid = ''a'' then ''A done @b check'' else ''B done'')), Suc w)"

definition exExtractFan :: "string \<Rightarrow> string \<Rightarrow> Mention list" where
  "exExtractFan resp self =
     (if resp = ''@a do A @b do B''
      then [\<lparr> teammateId = ''a'', m_message = ''do A'' \<rparr>,
            \<lparr> teammateId = ''b'', m_message = ''do B'' \<rparr>]
      else if resp = ''A done @b check''
      then [\<lparr> teammateId = ''b'', m_message = ''check'' \<rparr>]
      else [])"

definition exCoderMention :: Mention where
  "exCoderMention = \<lparr> teammateId = ''coder'', m_message = ''implement X'' \<rparr>"

definition exFanMentions :: "Mention list" where
  "exFanMentions =
     [\<lparr> teammateId = ''a'', m_message = ''do A'' \<rparr>, \<lparr> teammateId = ''b'', m_message = ''do B'' \<rparr>]"

definition exFanResults :: "ChainStep list" where
  "exFanResults =
     [\<lparr> agentId = ''a'', response = ''A done @b check'' \<rparr>, \<lparr> agentId = ''b'', response = ''B done'' \<rparr>]"

definition exFourTags :: string where
  \<comment> \<open>a response with four tags, none of them an absolute path\<close>
  "exFourTags = ''[send_file: a][send_file: b][send_file: c][send_file: d]''"


section \<open>Normalized retry and timeout limits\<close>

lemma getSandboxConfig_max_attempts:
  "max_attempts (getSandboxConfig s ag) = orNum (configured_max_attempts s) 3"
  by (cases "sandbox s")
     (simp_all add: getSandboxConfig_def Let_def configured_max_attempts_def
        orVal_def emptyConfig_def DEFAULT_SANDBOX_def orNum_def)

lemma getSandboxConfig_timeout_seconds:
  "timeout_seconds (getSandboxConfig s ag) = orNum (configured_timeout_seconds s) 600"
  by (cases "sandbox s")
     (simp_all add: getSandboxConfig_def Let_def configured_timeout_seconds_def
        orVal_def emptyConfig_def DEFAULT_SANDBOX_def orNum_def)

text \<open>
  C9. For every settings document and agent, the normalized \<^verbatim>\<open>max_attempts\<close> is the
  configured value when that value is present and not 0, and 3 otherwise; it is never 0.
  \<^verbatim>\<open>timeout_seconds\<close> behaves the same way with the default 600.
\<close>

theorem C9_max_attempts_normalized:
  "max_attempts (getSandboxConfig s ag) =
     (case configured_max_attempts s of
        Some n \<Rightarrow> if n \<noteq> 0 then n else 3
      | None \<Rightarrow> 3)
   \<and> max_attempts (getSandboxConfig s ag) \<noteq> 0
   \<and> timeout_seconds (getSandboxConfig s ag) =
     (case configured_timeout_seconds s of
        Some n \<Rightarrow> if n \<noteq> 0 then n else 600
      | None \<Rightarrow> 600)
   \<and> timeout_seconds (getSandboxConfig s ag) \<noteq> 0"
proof -
  have m: "max_attempts (getSandboxConfig s ag) = orNum (configured_max_attempts s) 3"
    by (rule getSandboxConfig_max_attempts)
  have t: "timeout_seconds (getSandboxConfig s ag) = orNum (configured_timeout_seconds s) 600"
    by (rule getSandboxConfig_timeout_seconds)
  show ?thesis
    unfolding m t by (simp add: orNum_def split: option.splits)
qed

theorem C9_max_attempts_normalized_witness:
  "max_attempts (getSandboxConfig
       \<lparr> sandbox = Some (emptyConfig\<lparr> cfg_timeout_seconds := Some 0, cfg_max_attempts := Some 0 \<rparr>) \<rparr>
       None) = 3
   \<and> timeout_seconds (getSandboxConfig
       \<lparr> sandbox = Some (emptyConfig\<lparr> cfg_timeout_seconds := Some 0, cfg_max_attempts := Some 0 \<rparr>) \<rparr>
       None) = 600
   \<and> max_attempts (getSandboxConfig
       \<lparr> sandbox = Some (emptyConfig\<lparr> cfg_max_attempts := Some 5 \<rparr>) \<rparr> None) = 5"
  using C9_max_attempts_normalized
          [of "\<lparr> sandbox = Some (emptyConfig\<lparr> cfg_timeout_seconds := Some 0, cfg_max_attempts := Some 0 \<rparr>) \<rparr>" None]
        C9_max_attempts_normalized
          [of "\<lparr> sandbox = Some (emptyConfig\<lparr> cfg_max_attempts := Some 5 \<rparr>) \<rparr>" None]
  by (simp add: configured_max_attempts_def configured_timeout_seconds_def emptyConfig_def)

section \<open>Classification of container failures\<close>

lemma classifyContainerFailure_Terminal_iff:
  "classifyContainerFailure e = Terminal \<longleftrightarrow>
     (\<exists>p \<in> set terminalPatterns. includesStr (toLowerCase e) p)"
  by (simp add: classifyContainerFailure_def terminalPatterns_def Let_def)

lemma classifyContainerFailure_Transient_iff:
  "classifyContainerFailure e = Transient \<longleftrightarrow>
     \<not> (\<exists>p \<in> set terminalPatterns. includesStr (toLowerCase e) p)"
  by (simp add: classifyContainerFailure_def terminalPatterns_def Let_def)

lemma runContainer_timedOut:
  assumes "preflight request m env = None" and "timedOut r"
  shows "\<exists>e. runContainer request m env (Closed r) = Inl e \<and> classification e = Transient"
  using assms by (simp add: runContainer_def Let_def mkSandboxError_def)

lemma runContainer_nonzero:
  assumes "preflight request m env = None" and "\<not> timedOut r" and "code r \<noteq> Some 0"
  shows "\<exists>e. runContainer request m env (Closed r) = Inl e \<and>
             classification e = classifyContainerFailure (stderr r)"
  using assms by (simp add: runContainer_def Let_def mkSandboxError_def)

text \<open>
  C6. A container-mode invocation that passed the pre-flight checks and whose runtime
  process closed: when it timed out the error is transient; when it did not time out and
  the exit code is not 0, the error is terminal if and only if the lower-cased standard
  error contains one of the seven terminal patterns, and transient otherwise.
\<close>

theorem C6_container_failure_classification:
  assumes "preflight request m env = None"
  shows "(timedOut r \<longrightarrow>
            (\<exists>e. runContainer request m env (Closed r) = Inl e \<and> classification e = Transient))
       \<and> (\<not> timedOut r \<and> code r \<noteq> Some 0 \<longrightarrow>
            (\<exists>e. runContainer request m env (Closed r) = Inl e \<and>
                 (classification e = Terminal \<longleftrightarrow>
                    (\<exists>p \<in> set terminalPatterns. includesStr (toLowerCase (stderr r)) p)) \<and>
                 (classification e = Transient \<longleftrightarrow>
                    \<not> (\<exists>p \<in> set terminalPatterns. includesStr (toLowerCase (stderr r)) p))))"
proof (intro conjI impI)
  assume "timedOut r"
  with assms show "\<exists>e. runContainer request m env (Closed r) = Inl e \<and> classification e = Transient"
    by (rule runContainer_timedOut)
next
  assume "\<not> timedOut r \<and> code r \<noteq> Some 0"
  with assms obtain e where e: "runContainer request m env (Closed r) = Inl e"
      "classification e = classifyContainerFailure (stderr r)"
    using runContainer_nonzero by blast
  show "\<exists>e. runContainer request m env (Closed r) = Inl e \<and>
             (classification e = Terminal \<longleftrightarrow>
                (\<exists>p \<in> set terminalPatterns. includesStr (toLowerCase (stderr r)) p)) \<and>
             (classification e = Transient \<longleftrightarrow>
                \<not> (\<exists>p \<in> set terminalPatterns. includesStr (toLowerCase (stderr r)) p))"
    using e classifyContainerFailure_Terminal_iff [of "stderr r"]
      classifyContainerFailure_Transient_iff [of "stderr r"]
    by auto
qed

theorem C6_container_failure_classification_witness:
  "preflight exRequest Docker exEnv = None
   \<and> timedOut exTimedOut
   \<and> (\<exists>e. runContainer exRequest Docker exEnv (Closed exTimedOut) = Inl e \<and>
           classification e = Transient)
   \<and> \<not> timedOut exBadImage \<and> code exBadImage \<noteq> Some 0
   \<and> (\<exists>e. runContainer exRequest Docker exEnv (Closed exBadImage) = Inl e \<and>
           classification e = Terminal)
   \<and> \<not> timedOut exNetwork \<and> code exNetwork \<noteq> Some 0
   \<and> (\<exists>e. runContainer exRequest Docker exEnv (Closed exNetwork) = Inl e \<and>
           classification e = Transient)"
proof -
  have p: "preflight exRequest Docker exEnv = None"
    by (simp add: preflight_def exRequest_def exSettings_def exEnv_def getSandboxConfig_def
          Let_def orVal_def orStr_def orNum_def emptyConfig_def DEFAULT_SANDBOX_def
          containerNetwork_def getRequiredEnv_def buildAllowedEnv_def)
  have bad: "\<exists>p \<in> set terminalPatterns. includesStr (toLowerCase (stderr exBadImage)) p"
    by (simp add: terminalPatterns_def exBadImage_def toLowerCase_def lowerChar_def
          startsWith_def char_of_eq_iff)
  have net: "\<not> (\<exists>p \<in> set terminalPatterns. includesStr (toLowerCase (stderr exNetwork)) p)"
    by (simp add: terminalPatterns_def exNetwork_def toLowerCase_def lowerChar_def
          startsWith_def char_of_eq_iff)
  have t: "timedOut exTimedOut" by (simp add: exTimedOut_def)
  have b: "\<not> timedOut exBadImage \<and> code exBadImage \<noteq> Some 0" by (simp add: exBadImage_def)
  have n: "\<not> timedOut exNetwork \<and> code exNetwork \<noteq> Some 0" by (simp add: exNetwork_def)
  show ?thesis
    using C6_container_failure_classification [OF p, of exTimedOut]
      C6_container_failure_classification [OF p, of exBadImage]
      C6_container_failure_classification [OF p, of exNetwork]
      p bad net t b n
    by blast
qed

section \<open>The Codex fallback\<close>








section \<open>Crash recovery\<close>

lemma readdirSync_mem:
  "n \<in> set (readdirSync st d) \<longleftrightarrow> map_of (entries st) (d, n) \<noteq> None"
proof -
  have "n \<in> set (readdirSync st d) \<longleftrightarrow> (d, n) \<in> fst ` set (entries st)"
    by (force simp: readdirSync_def)
  then show ?thesis by (simp add: map_of_eq_None_iff)
qed

lemma recoverStep_map:
  assumes "(QUEUE_INCOMING, f) \<notin> set (unwritable s)"
  shows "map_of (entries (recoverStep s f)) =
           (case map_of (entries s) (QUEUE_PROCESSING, f) of
              None \<Rightarrow> map_of (entries s)
            | Some c \<Rightarrow> (map_of (entries s))((QUEUE_PROCESSING, f) := None, (QUEUE_INCOMING, f) \<mapsto> c))"
  using assms
  by (auto simp: recoverStep_def renameSync_def update_conv' delete_conv' split: option.splits)

lemma recoverStep_unwritable: "unwritable (recoverStep s f) = unwritable s"
  by (simp add: recoverStep_def renameSync_def split: option.splits)

lemma recover_fold:
  assumes "\<forall>n. (QUEUE_INCOMING, n) \<notin> set (unwritable s)"
  shows "map_of (entries (foldl recoverStep s ns)) (QUEUE_PROCESSING, n) =
           (if n \<in> set ns then None else map_of (entries s) (QUEUE_PROCESSING, n))
       \<and> map_of (entries (foldl recoverStep s ns)) (QUEUE_INCOMING, n) =
           (if n \<in> set ns
            then (case map_of (entries s) (QUEUE_PROCESSING, n) of
                    Some c \<Rightarrow> Some c
                  | None \<Rightarrow> map_of (entries s) (QUEUE_INCOMING, n))
            else map_of (entries s) (QUEUE_INCOMING, n))"
  using assms
proof (induction ns arbitrary: s)
  case Nil
  then show ?case by simp
next
  case (Cons f ns)
  have w: "\<forall>n. (QUEUE_INCOMING, n) \<notin> set (unwritable (recoverStep s f))"
    using Cons.prems by (simp add: recoverStep_unwritable)
  have m: "map_of (entries (recoverStep s f)) =
           (case map_of (entries s) (QUEUE_PROCESSING, f) of
              None \<Rightarrow> map_of (entries s)
            | Some c \<Rightarrow> (map_of (entries s))((QUEUE_PROCESSING, f) := None, (QUEUE_INCOMING, f) \<mapsto> c))"
    using Cons.prems by (simp add: recoverStep_map)
  show ?case
    using Cons.IH [OF w] unfolding foldl_Cons m
    by (auto split: option.splits)
qed

lemma orphans_mem:
  "n \<in> set (filter (\<lambda>f. endsWith f ''.json'') (readdirSync st QUEUE_PROCESSING)) \<longleftrightarrow>
     endsWith n ''.json'' \<and> map_of (entries st) (QUEUE_PROCESSING, n) \<noteq> None"
  by (auto simp: readdirSync_mem)

text \<open>
  C5 as the specification states it: after the recovery sweep the processing directory is
  empty. It fails on a processing directory that holds a file whose name does not end in
  \<^verbatim>\<open>.json\<close>: the sweep filters on the suffix and leaves the file where it is.
\<close>

theorem C5_counterexample_stray_file:
  "readdirSync exStrayQueue QUEUE_PROCESSING = [''note.txt'', ''telegram_m1.json'']
   \<and> readdirSync (recoverOrphanedFiles exStrayQueue) QUEUE_PROCESSING = [''note.txt'']"
  by (simp add: recoverOrphanedFiles_def exStrayQueue_def readdirSync_def endsWith_def
        recoverStep_def renameSync_def)

text \<open>
  C5, amended. When no incoming path refuses the rename, the recovery sweep moves every
  file of the processing directory whose name ends in \<^verbatim>\<open>.json\<close> to the incoming directory
  under the same name, so that no \<^verbatim>\<open>.json\<close> file is left in processing; the other files
  of the processing directory stay.
\<close>

theorem C5_recovery_moves_json_files:
  assumes "\<forall>n. (QUEUE_INCOMING, n) \<notin> set (unwritable st)"
  shows "filter (\<lambda>f. endsWith f ''.json'')
           (readdirSync (recoverOrphanedFiles st) QUEUE_PROCESSING) = []
       \<and> (\<forall>n c. endsWith n ''.json'' \<and> map_of (entries st) (QUEUE_PROCESSING, n) = Some c \<longrightarrow>
                 map_of (entries (recoverOrphanedFiles st)) (QUEUE_INCOMING, n) = Some c)
       \<and> (\<forall>n. \<not> endsWith n ''.json'' \<longrightarrow>
               map_of (entries (recoverOrphanedFiles st)) (QUEUE_PROCESSING, n) =
               map_of (entries st) (QUEUE_PROCESSING, n))"
proof (intro conjI allI impI)
  let ?ns = "filter (\<lambda>f. endsWith f ''.json'') (readdirSync st QUEUE_PROCESSING)"
  have left: "map_of (entries (recoverOrphanedFiles st)) (QUEUE_PROCESSING, n) =
                (if n \<in> set ?ns then None else map_of (entries st) (QUEUE_PROCESSING, n))" for n
    using recover_fold [OF assms, of ?ns n] by (simp add: recoverOrphanedFiles_def)
  have "n \<notin> set (filter (\<lambda>f. endsWith f ''.json'')
                  (readdirSync (recoverOrphanedFiles st) QUEUE_PROCESSING))" for n
    using left [of n] orphans_mem [of n st] orphans_mem [of n "recoverOrphanedFiles st"]
    by (auto split: if_splits)
  then show "filter (\<lambda>f. endsWith f ''.json'')
               (readdirSync (recoverOrphanedFiles st) QUEUE_PROCESSING) = []"
    by (cases "filter (\<lambda>f. endsWith f ''.json'')
                 (readdirSync (recoverOrphanedFiles st) QUEUE_PROCESSING)")
       (simp, metis list.set_intros(1))
  show "map_of (entries (recoverOrphanedFiles st)) (QUEUE_INCOMING, n) = Some c"
    if "endsWith n ''.json'' \<and> map_of (entries st) (QUEUE_PROCESSING, n) = Some c" for n c
    using that recover_fold [OF assms, of ?ns n] orphans_mem [of n st]
    by (simp add: recoverOrphanedFiles_def)
  show "map_of (entries (recoverOrphanedFiles st)) (QUEUE_PROCESSING, n) =
          map_of (entries st) (QUEUE_PROCESSING, n)"
    if "\<not> endsWith n ''.json''" for n
    using that left [of n] orphans_mem [of n st] by simp
qed

theorem C5_recovery_moves_json_files_witness:
  "(\<forall>n. (QUEUE_INCOMING, n) \<notin> set (unwritable exStrayQueue))
   \<and> endsWith ''telegram_m1.json'' ''.json''
   \<and> map_of (entries exStrayQueue) (QUEUE_PROCESSING, ''telegram_m1.json'') = Some (MessageJson exMessage)
   \<and> map_of (entries (recoverOrphanedFiles exStrayQueue)) (QUEUE_INCOMING, ''telegram_m1.json'')
       = Some (MessageJson exMessage)
   \<and> filter (\<lambda>f. endsWith f ''.json'')
       (readdirSync (recoverOrphanedFiles exStrayQueue) QUEUE_PROCESSING) = []
   \<and> \<not> endsWith ''note.txt'' ''.json''
   \<and> map_of (entries (recoverOrphanedFiles exStrayQueue)) (QUEUE_PROCESSING, ''note.txt'')
       = Some (Unparseable ''x'')"
proof -
  have w: "\<forall>n. (QUEUE_INCOMING, n) \<notin> set (unwritable exStrayQueue)"
    by (simp add: exStrayQueue_def)
  have j: "endsWith ''telegram_m1.json'' ''.json''" "\<not> endsWith ''note.txt'' ''.json''"
    by (simp_all add: endsWith_def)
  have m: "map_of (entries exStrayQueue) (QUEUE_PROCESSING, ''telegram_m1.json'')
             = Some (MessageJson exMessage)"
       "map_of (entries exStrayQueue) (QUEUE_PROCESSING, ''note.txt'') = Some (Unparseable ''x'')"
    by (simp_all add: exStrayQueue_def)
  note t = C5_recovery_moves_json_files [OF w]
  from t have a: "filter (\<lambda>f. endsWith f ''.json'')
       (readdirSync (recoverOrphanedFiles exStrayQueue) QUEUE_PROCESSING) = []"
    by (rule conjunct1)
  from t j m have b: "map_of (entries (recoverOrphanedFiles exStrayQueue))
       (QUEUE_INCOMING, ''telegram_m1.json'') = Some (MessageJson exMessage)"
    by blast
  from t j m have c: "map_of (entries (recoverOrphanedFiles exStrayQueue))
       (QUEUE_PROCESSING, ''note.txt'') = Some (Unparseable ''x'')"
    by simp
  from w j m a b c show ?thesis by simp
qed

section \<open>How queue files are written\<close>

lemma writeFileSync_ok:
  assumes "p \<notin> set (unwritable st)"
  shows "writeFileSync st p c =
           Inr (st\<lparr> entries := AList.update p c (entries st), oplog := oplog st @ [WriteFile p c] \<rparr>)"
  using assms by (simp add: writeFileSync_def)

text \<open>
  C4 as the specification states it: a response reaches the outgoing directory through a
  temporary file and a rename. It fails: the response of the example message is written
  by one \<^verbatim>\<open>writeFileSync\<close> on the final path, and the log holds no rename.
\<close>

theorem C4_counterexample_direct_write:
  "writeOutgoingResponse 1700000000000 exQueue ''telegram'' ''u'' ''hi'' ''hello'' ''m1''
       (Some ''default'') None
     = Inr (exQueue\<lparr>
         entries := entries exQueue @
           [((QUEUE_OUTGOING, ''telegram_m1_1700000000000.json''),
             ResponseJson \<lparr> r_channel = ''telegram'', r_sender = ''u'', r_message = ''hi'',
               r_originalMessage = ''hello'', r_timestamp = 1700000000000, r_messageId = ''m1'',
               r_agent = Some ''default'', r_files = None \<rparr>)],
         oplog :=
           [WriteFile (QUEUE_OUTGOING, ''telegram_m1_1700000000000.json'')
             (ResponseJson \<lparr> r_channel = ''telegram'', r_sender = ''u'', r_message = ''hi'',
               r_originalMessage = ''hello'', r_timestamp = 1700000000000, r_messageId = ''m1'',
               r_agent = Some ''default'', r_files = None \<rparr>)] \<rparr>)
   \<and> writtenDirectly
        [WriteFile (QUEUE_OUTGOING, ''telegram_m1_1700000000000.json'')
          (ResponseJson \<lparr> r_channel = ''telegram'', r_sender = ''u'', r_message = ''hi'',
            r_originalMessage = ''hello'', r_timestamp = 1700000000000, r_messageId = ''m1'',
            r_agent = Some ''default'', r_files = None \<rparr>)]
        (QUEUE_OUTGOING, ''telegram_m1_1700000000000.json'')
   \<and> \<not> renamedInto
        [WriteFile (QUEUE_OUTGOING, ''telegram_m1_1700000000000.json'')
          (ResponseJson \<lparr> r_channel = ''telegram'', r_sender = ''u'', r_message = ''hi'',
            r_originalMessage = ''hello'', r_timestamp = 1700000000000, r_messageId = ''m1'',
            r_agent = Some ''default'', r_files = None \<rparr>)]
        (QUEUE_OUTGOING, ''telegram_m1_1700000000000.json'')"
  by (simp add: writeOutgoingResponse_def writeFileSync_def responseFileName_def exQueue_def
        showNat.simps digitChar_def writtenDirectly_def renamedInto_def Let_def)

text \<open>
  C4, amended. A response file and a dead-letter record are each written by a single
  \<^verbatim>\<open>writeFileSync\<close> on their final path, without a temporary file and without a rename:
  when the path accepts the write, the call adds exactly that one write to the log of
  file-system calls and the file then stands at the path.
\<close>

theorem C4_queue_files_written_in_place:
  "((QUEUE_OUTGOING, responseFileName chan mid now) \<notin> set (unwritable st) \<longrightarrow>
      (\<exists>st' d. writeOutgoingResponse now st chan sndr msg orig mid ag fls = Inr st' \<and>
         r_message d = msg \<and>
         oplog st' = oplog st @
           [WriteFile (QUEUE_OUTGOING, responseFileName chan mid now) (ResponseJson d)] \<and>
         map_of (entries st') (QUEUE_OUTGOING, responseFileName chan mid now)
           = Some (ResponseJson d) \<and>
         \<not> renamedInto (drop (length (oplog st)) (oplog st'))
             (QUEUE_OUTGOING, responseFileName chan mid now)))
   \<and> ((QUEUE_DEAD_LETTER, deadLetterFileName f now) \<notin> set (unwritable st) \<longrightarrow>
      (\<exists>st' d. writeDeadLetter now st f payload cls emsg att maxA = Inr st' \<and>
         d = \<lparr> failedAt = now, d_errorClass = cls, d_errorMessage = emsg, d_attempt = att,
               d_maxAttempts = maxA, d_payload = payload \<rparr> \<and>
         oplog st' = oplog st @
           [WriteFile (QUEUE_DEAD_LETTER, deadLetterFileName f now) (DeadLetterJson d)] \<and>
         map_of (entries st') (QUEUE_DEAD_LETTER, deadLetterFileName f now)
           = Some (DeadLetterJson d) \<and>
         \<not> renamedInto (drop (length (oplog st)) (oplog st'))
             (QUEUE_DEAD_LETTER, deadLetterFileName f now)))"
  by (simp add: writeOutgoingResponse_def writeDeadLetter_def writeFileSync_def Let_def
        update_conv' renamedInto_def)

theorem C4_queue_files_written_in_place_witness:
  "(QUEUE_OUTGOING, responseFileName ''telegram'' ''m1'' 1700000000000) \<notin> set (unwritable exQueue)
   \<and> (\<exists>st' d. writeOutgoingResponse 1700000000000 exQueue ''telegram'' ''u'' ''hi'' ''hello'' ''m1''
                  (Some ''default'') None = Inr st' \<and>
         r_message d = ''hi'' \<and>
         oplog st' = oplog exQueue @
           [WriteFile (QUEUE_OUTGOING, responseFileName ''telegram'' ''m1'' 1700000000000)
              (ResponseJson d)])
   \<and> (QUEUE_DEAD_LETTER, deadLetterFileName ''telegram_m1.json'' 1700000000000)
        \<notin> set (unwritable exQueue)
   \<and> (\<exists>st' d. writeDeadLetter 1700000000000 exQueue ''telegram_m1.json'' (Some exMessage)
                  Terminal ''invalid reference format'' 1 3 = Inr st' \<and>
         oplog st' = oplog exQueue @
           [WriteFile (QUEUE_DEAD_LETTER, deadLetterFileName ''telegram_m1.json'' 1700000000000)
              (DeadLetterJson d)])"
proof -
  have w: "(QUEUE_OUTGOING, responseFileName ''telegram'' ''m1'' 1700000000000)
             \<notin> set (unwritable exQueue)"
      "(QUEUE_DEAD_LETTER, deadLetterFileName ''telegram_m1.json'' 1700000000000)
             \<notin> set (unwritable exQueue)"
    by (simp_all add: exQueue_def)
  show ?thesis
    using C4_queue_files_written_in_place
            [of "''telegram''" "''m1''" 1700000000000 exQueue "''u''" "''hi''" "''hello''"
                "Some ''default''" None "''telegram_m1.json''" "Some exMessage" Terminal
                "''invalid reference format''" 1 3]
          w
    by blast
qed

section \<open>The length limit of responses\<close>



















section \<open>Outbound file tags and path resolution\<close>


lemma fileStep_attachment:
  "fileStep h maps acc cap =
     (case attachment h maps (trim cap) of
        Some p \<Rightarrow> (setAdd (fst acc) p, snd acc)
      | None \<Rightarrow> (fst acc, snd acc @ [trim cap]))"
  by (simp add: fileStep_def attachment_def Let_def split: option.splits)

lemma foldl_fileStep:
  "foldl (fileStep h maps) (fs, ms) caps =
     (foldl setAdd fs (List.map_filter (attachment h maps) (map trim caps)),
      ms @ filter (\<lambda>t. attachment h maps t = None) (map trim caps))"
proof (induction caps arbitrary: fs ms)
  case Nil
  then show ?case by (simp add: List.map_filter_simps)
next
  case (Cons cap caps)
  show ?case
    using Cons.IH fileStep_attachment [of h maps "(fs, ms)" cap]
    by (cases "attachment h maps (trim cap)") (simp_all add: List.map_filter_simps)
qed

lemma foldl_setAdd:
  "distinct fs \<Longrightarrow> distinct (foldl setAdd fs ps) \<and> set (foldl setAdd fs ps) = set fs \<union> set ps"
  by (induction ps arbitrary: fs) (auto simp: setAdd_def)

lemma set_map_filter: "set (List.map_filter f xs) = {y. \<exists>x \<in> set xs. f x = Some y}"
  by (induction xs) (auto simp: List.map_filter_simps split: option.splits)

lemma parseOutboundFiles_files:
  "distinct (o_files (parseOutboundFiles h resp maps)) \<and>
   set (o_files (parseOutboundFiles h resp maps)) =
     {p. \<exists>t \<in> set (tagPaths resp). attachment h maps t = Some p}"
  using foldl_setAdd [of "[]" "List.map_filter (attachment h maps) (tagPaths resp)"]
  by (simp add: parseOutboundFiles_def Let_def foldl_fileStep tagPaths_def set_map_filter)

lemma parseOutboundFiles_missing:
  "missing (parseOutboundFiles h resp maps) =
     filter (\<lambda>t. attachment h maps t = None) (tagPaths resp)"
  by (simp add: parseOutboundFiles_def Let_def foldl_fileStep tagPaths_def)


lemma resolveSandboxPath_relative:
  "\<not> isAbsolute h (trim t) \<Longrightarrow> resolveSandboxPath h t maps = None"
  by (simp add: resolveSandboxPath_def Let_def)

lemma attachment_absolute:
  "attachment h maps q = Some p \<Longrightarrow> isAbsolute h (trim q) \<and> resolveSandboxPath h q maps = Some p"
  by (auto simp: attachment_def resolveSandboxPath_def Let_def split: option.splits if_splits)













text \<open>
  C10 as stated: a tagged path that is not absolute is counted as missing and so appears
  in the warning. The second part fails: the warning shows the first three missing paths
  only. Of the four tags of \<open>exFourTags\<close>, none absolute, the path \<^verbatim>\<open>d\<close> stands in the
  missing list, but the warning has the lines for \<^verbatim>\<open>a\<close>, \<^verbatim>\<open>b\<close> and \<^verbatim>\<open>c\<close> and the
  response does not hold the line \<^verbatim>\<open>- d\<close>.
\<close>

theorem C10_counterexample_fourth_missing_path:
  "tagPaths exFourTags = [''a'', ''b'', ''c'', ''d'']
   \<and> \<not> isAbsolute exHost (trim ''d'')
   \<and> resolveSandboxPath exHost ''d'' [] = None
   \<and> missing (parseOutboundFiles exHost exFourTags []) = [''a'', ''b'', ''c'', ''d'']
   \<and> warningLines (missing (parseOutboundFiles exHost exFourTags [])) = [''- a'', ''- b'', ''- c'']
   \<and> beforeLimit exHost exFourTags [] =
       ''[Warning: Some files could not be found for attachment]'' @ [CHR 0x0A]
       @ ''- a'' @ [CHR 0x0A] @ ''- b'' @ [CHR 0x0A] @ ''- c''
   \<and> \<not> includesStr (beforeLimit exHost exFourTags []) ''- d''"
  by (simp add: exFourTags_def tagPaths_def beforeLimit_def parseOutboundFiles_def
        matchSendFile_def startsWith_def Let_def trim_def isSpace_def fileStep_def
        resolveSandboxPath_def exHost_def posixHost_def appendWarning_def warningLines_def
        warningHeader_def)

text \<open>
  C10, amended. A tagged path that is not absolute after trimming resolves to no host
  path, whatever the path mappings. When it is the path of a tag of the response, it
  stands in the missing list, and a warning is appended; the warning has one line for
  each of the first three missing paths, so the path is shown there exactly when it is
  among these three. Every entry of the files list is the resolution of a tag whose path
  is absolute.
\<close>

theorem C10_relative_path_is_missing:
  assumes "\<not> isAbsolute h (trim t)"
  shows "resolveSandboxPath h t maps = None
       \<and> (t \<in> set (tagPaths resp) \<longrightarrow>
            t \<in> set (missing (parseOutboundFiles h resp maps)) \<and>
            appendWarning c (missing (parseOutboundFiles h resp maps)) =
              trim (c @ warningHeader @
                    joinWith [CHR 0x0A] (warningLines (missing (parseOutboundFiles h resp maps)))))
       \<and> length (warningLines (missing (parseOutboundFiles h resp maps))) \<le> 3
       \<and> (''- '' @ t \<in> set (warningLines (missing (parseOutboundFiles h resp maps))) \<longleftrightarrow>
            t \<in> set (take 3 (missing (parseOutboundFiles h resp maps))))
       \<and> (\<forall>p \<in> set (o_files (parseOutboundFiles h resp maps)).
            \<exists>q \<in> set (tagPaths resp). isAbsolute h (trim q) \<and> resolveSandboxPath h q maps = Some p)"
proof (intro conjI impI ballI)
  show n: "resolveSandboxPath h t maps = None"
    using assms by (rule resolveSandboxPath_relative)
  then have att: "attachment h maps t = None"
    by (simp add: attachment_def)
  show "t \<in> set (missing (parseOutboundFiles h resp maps))" if "t \<in> set (tagPaths resp)"
    using that att by (simp add: parseOutboundFiles_missing)
  then have "length (missing (parseOutboundFiles h resp maps)) > 0" if "t \<in> set (tagPaths resp)"
    using that by auto
  then show "appendWarning c (missing (parseOutboundFiles h resp maps)) =
              trim (c @ warningHeader @
                    joinWith [CHR 0x0A] (warningLines (missing (parseOutboundFiles h resp maps))))"
    if "t \<in> set (tagPaths resp)"
    using that by (simp add: appendWarning_def Let_def)
  show "length (warningLines (missing (parseOutboundFiles h resp maps))) \<le> 3"
    by (simp add: warningLines_def)
  show "''- '' @ t \<in> set (warningLines (missing (parseOutboundFiles h resp maps))) \<longleftrightarrow>
            t \<in> set (take 3 (missing (parseOutboundFiles h resp maps)))"
    by (auto simp: warningLines_def)
  show "\<exists>q \<in> set (tagPaths resp). isAbsolute h (trim q) \<and> resolveSandboxPath h q maps = Some p"
    if "p \<in> set (o_files (parseOutboundFiles h resp maps))" for p
  proof -
    from that obtain q where "q \<in> set (tagPaths resp)" "attachment h maps q = Some p"
      using parseOutboundFiles_files [of h resp maps] by auto
    then show ?thesis using attachment_absolute by blast
  qed
qed

theorem C10_relative_path_is_missing_witness:
  "\<not> isAbsolute exRelHost (trim ''out.png'')
   \<and> hostExists exRelHost ''out.png''
   \<and> resolveSandboxPath exRelHost ''out.png'' exMappings = None
   \<and> ''out.png'' \<in> set (tagPaths ''see [send_file: out.png]'')
   \<and> ''out.png'' \<in> set (missing (parseOutboundFiles exRelHost ''see [send_file: out.png]'' exMappings))
   \<and> ''out.png''
       \<in> set (take 3 (missing (parseOutboundFiles exRelHost ''see [send_file: out.png]'' exMappings)))
   \<and> ''- out.png''
       \<in> set (warningLines
                (missing (parseOutboundFiles exRelHost ''see [send_file: out.png]'' exMappings)))
   \<and> o_files (parseOutboundFiles exRelHost ''see [send_file: out.png]'' exMappings) = []"
proof -
  have a: "\<not> isAbsolute exRelHost (trim ''out.png'')" "hostExists exRelHost ''out.png''"
    by (simp_all add: exRelHost_def posixHost_def trim_def isSpace_def exOnlyRelative_def)
  have t: "tagPaths ''see [send_file: out.png]'' = [''out.png'']"
    by (simp add: tagPaths_def matchSendFile_def startsWith_def Let_def trim_def isSpace_def)
  note c10 = C10_relative_path_is_missing
               [OF a(1), of exMappings "''see [send_file: out.png]''" "''see''"]
  have inm: "''out.png''
       \<in> set (missing (parseOutboundFiles exRelHost ''see [send_file: out.png]'' exMappings))"
    using c10 t by simp
  have m: "missing (parseOutboundFiles exRelHost ''see [send_file: out.png]'' exMappings)
             = [''out.png'']"
    using a t c10 by (simp add: parseOutboundFiles_missing attachment_def)
  have k: "''- out.png''
       \<in> set (warningLines
                (missing (parseOutboundFiles exRelHost ''see [send_file: out.png]'' exMappings)))"
    using c10 [THEN conjunct2, THEN conjunct2, THEN conjunct2, THEN conjunct1] m by simp
  have f: "o_files (parseOutboundFiles exRelHost ''see [send_file: out.png]'' exMappings) = []"
  proof (cases "o_files (parseOutboundFiles exRelHost ''see [send_file: out.png]'' exMappings)")
    case Nil
    then show ?thesis .
  next
    case (Cons p ps)
    then have "\<exists>q \<in> set (tagPaths ''see [send_file: out.png]'').
                 isAbsolute exRelHost (trim q) \<and> resolveSandboxPath exRelHost q exMappings = Some p"
      using c10 by simp
    then show ?thesis using a t by simp
  qed
  from c10 a t f inm m k show ?thesis by simp
qed

section \<open>Retry and dead-letter\<close>

lemma shouldRetry_iff:
  "shouldRetry settings st f messageData err \<longleftrightarrow>
     errorClassOf err = Transient \<and>
     attemptOf messageData < max_attempts (getSandboxConfig settings None) \<and>
     messageData \<noteq> None \<and> existsSync st (QUEUE_PROCESSING, f)"
  by (cases "errorClassOf err") (auto simp: shouldRetry_def)

lemma retry_requeues:
  assumes "shouldRetry settings st f (Some md) err"
    and "(QUEUE_PROCESSING, f) \<notin> set (unwritable st)"
    and "(QUEUE_INCOMING, f) \<notin> set (unwritable st)"
  shows "\<exists>st'. handleProcessingError settings now st f (Some md) ctx err = Inr st' \<and>
           map_of (entries st') (QUEUE_INCOMING, f)
             = Some (MessageJson (retryData now md (attemptOf (Some md)))) \<and>
           map_of (entries st') (QUEUE_PROCESSING, f) = None \<and>
           oplog st' = oplog st @
             [WriteFile (QUEUE_PROCESSING, f) (MessageJson (retryData now md (attemptOf (Some md)))),
              Rename (QUEUE_PROCESSING, f) (QUEUE_INCOMING, f)]"
  using assms
  by (simp add: handleProcessingError_def Let_def writeFileSync_def renameSync_def
        update_conv' delete_conv')

lemma deadLetterMessage_ok:
  assumes "(QUEUE_DEAD_LETTER, deadLetterFileName f now) \<notin> set (unwritable st)"
  shows "\<exists>st'. deadLetterMessage settings now st f messageData att ctx err = Inr st' \<and>
           map_of (entries st') (QUEUE_DEAD_LETTER, deadLetterFileName f now)
             = Some (DeadLetterJson
                 \<lparr> failedAt = now, d_errorClass = errorClassOf err,
                   d_errorMessage = toSafeErrorMessage err, d_attempt = att,
                   d_maxAttempts = max_attempts (getSandboxConfig settings None),
                   d_payload = messageData \<rparr>) \<and>
           map_of (entries st') (QUEUE_PROCESSING, f) = None \<and>
           map_of (entries st') (QUEUE_INCOMING, f) = map_of (entries st) (QUEUE_INCOMING, f)"
proof -
  have cls: "(if errorClassOf err = Terminal then Terminal else Transient) = errorClassOf err"
    by (cases "errorClassOf err") simp_all
  let ?d = "\<lparr> failedAt = now, d_errorClass = errorClassOf err,
                   d_errorMessage = toSafeErrorMessage err, d_attempt = att,
                   d_maxAttempts = max_attempts (getSandboxConfig settings None),
                   d_payload = messageData \<rparr>"
  let ?st1 = "st\<lparr> entries := AList.update (QUEUE_DEAD_LETTER, deadLetterFileName f now)
                            (DeadLetterJson ?d) (entries st),
                  oplog := oplog st @ [WriteFile (QUEUE_DEAD_LETTER, deadLetterFileName f now)
                            (DeadLetterJson ?d)] \<rparr>"
  have w: "writeDeadLetter now st f messageData
             (if errorClassOf err = Terminal then Terminal else Transient)
             (toSafeErrorMessage err) att (max_attempts (getSandboxConfig settings None)) = Inr ?st1"
    using assms by (simp add: writeDeadLetter_def writeFileSync_def Let_def cls)
  have out: "\<exists>st2. (case messageData of
                    None \<Rightarrow> ?st1
                  | Some md \<Rightarrow>
                      if channelForError ctx \<noteq> [] \<and> senderForError ctx \<noteq> [] \<and>
                         messageIdForError ctx \<noteq> []
                      then (case writeOutgoingResponse now ?st1 (channelForError ctx)
                                   (senderForError ctx) (failureUserMessage err)
                                   (orStr (Some (rawMessageForError ctx)) (message md))
                                   (messageIdForError ctx) (agentIdForError ctx) None of
                              Inr st' \<Rightarrow> st'
                            | Inl e \<Rightarrow> ?st1)
                      else ?st1) = st2 \<and>
              (\<forall>p. fst p \<noteq> QUEUE_OUTGOING \<longrightarrow> map_of (entries st2) p = map_of (entries ?st1) p)"
    by (auto simp: writeOutgoingResponse_def writeFileSync_def Let_def update_conv'
          split: option.splits)
  then obtain st2 where st2: "(case messageData of
                    None \<Rightarrow> ?st1
                  | Some md \<Rightarrow>
                      if channelForError ctx \<noteq> [] \<and> senderForError ctx \<noteq> [] \<and>
                         messageIdForError ctx \<noteq> []
                      then (case writeOutgoingResponse now ?st1 (channelForError ctx)
                                   (senderForError ctx) (failureUserMessage err)
                                   (orStr (Some (rawMessageForError ctx)) (message md))
                                   (messageIdForError ctx) (agentIdForError ctx) None of
                              Inr st' \<Rightarrow> st'
                            | Inl e \<Rightarrow> ?st1)
                      else ?st1) = st2"
     and keep: "\<And>p. fst p \<noteq> QUEUE_OUTGOING \<Longrightarrow> map_of (entries st2) p = map_of (entries ?st1) p"
    by blast
  have m1: "map_of (entries ?st1) (QUEUE_DEAD_LETTER, deadLetterFileName f now) = Some (DeadLetterJson ?d)"
      "map_of (entries ?st1) (QUEUE_INCOMING, f) = map_of (entries st) (QUEUE_INCOMING, f)"
    by (simp_all add: update_conv')
  have d: "deadLetterMessage settings now st f messageData att ctx err =
             (if existsSync st2 (QUEUE_PROCESSING, f) then unlinkSync st2 (QUEUE_PROCESSING, f)
              else Inr st2)"
    unfolding deadLetterMessage_def w using st2 by (simp add: Let_def)
  show ?thesis
    unfolding d using keep [of "(QUEUE_DEAD_LETTER, deadLetterFileName f now)"]
      keep [of "(QUEUE_INCOMING, f)"] m1
    by (auto simp: unlinkSync_def existsSync_def delete_conv')
qed

lemma not_retry_dead_letters:
  assumes "\<not> shouldRetry settings st f messageData err"
  shows "handleProcessingError settings now st f messageData ctx err =
           deadLetterMessage settings now st f messageData (attemptOf messageData) ctx err"
  using assms by (cases messageData) (simp_all add: handleProcessingError_def Let_def)


text \<open>
  C1 as the specification states it: a transient error with attempts left requeues the
  message. It fails for a queue file that \<^verbatim>\<open>JSON.parse\<close> rejects: the syntax error is
  transient and it is the first of three attempts, but no message was read
  (\<^verbatim>\<open>messageData\<close> is still \<^verbatim>\<open>null\<close>), so the retry branch is skipped: a dead-letter record
  without payload is written, the processing file is removed and nothing returns to
  incoming.
\<close>

theorem C1_counterexample_unparsed_message:
  "errorClassOf exSyntaxError = Transient
   \<and> attemptOf None < max_attempts (getSandboxConfig exDefaultSettings None)
   \<and> handleProcessingError exDefaultSettings 1700000000000 exGarbageQueue ''telegram_m1.json''
        None exNoContext exSyntaxError
      = Inr \<lparr> entries =
                [((QUEUE_DEAD_LETTER, ''telegram_m1_1700000000000.json''),
                  DeadLetterJson
                    \<lparr> failedAt = 1700000000000, d_errorClass = Transient,
                      d_errorMessage = ''Unexpected end of JSON input'', d_attempt = 1,
                      d_maxAttempts = 3, d_payload = None \<rparr>)],
              oplog =
                [WriteFile (QUEUE_DEAD_LETTER, ''telegram_m1_1700000000000.json'')
                   (DeadLetterJson
                     \<lparr> failedAt = 1700000000000, d_errorClass = Transient,
                       d_errorMessage = ''Unexpected end of JSON input'', d_attempt = 1,
                       d_maxAttempts = 3, d_payload = None \<rparr>),
                 Unlink (QUEUE_PROCESSING, ''telegram_m1.json'')],
              unwritable = [] \<rparr>"
proof -
  have r: "toSafeErrorMessage exSyntaxError = ''Unexpected end of JSON input''"
    by (simp add: toSafeErrorMessage_def exSyntaxError_def orStr_def matchSecret_def
          startsWith_def Let_def)
  have m: "max_attempts (getSandboxConfig exDefaultSettings None) = 3"
    by (simp add: getSandboxConfig_max_attempts configured_max_attempts_def
          exDefaultSettings_def orNum_def)
  have n: "deadLetterFileName ''telegram_m1.json'' 1700000000000 = ''telegram_m1_1700000000000.json''"
    by (simp add: deadLetterFileName_def basenameExt_def endsWith_def showNat.simps digitChar_def)
  have c: "errorClassOf exSyntaxError = Transient"
    by (simp add: errorClassOf_def exSyntaxError_def)
  show ?thesis
    by (simp add: handleProcessingError_def deadLetterMessage_def writeDeadLetter_def
          writeFileSync_def unlinkSync_def existsSync_def Let_def r m n c attemptOf_def orNum_def
          exGarbageQueue_def)
qed

text \<open>
  C1, amended. When processing a message raises an error, the message is requeued if and
  only if the error is transient, the previous attempt count plus one is less than the
  configured \<^verbatim>\<open>max_attempts\<close>, the message had been read (parsed) and its processing file
  still exists: it is then rewritten in processing with the attempt counter raised by one
  and moved back to incoming (the two paths accepting the write and the rename). In every
  other case a dead-letter record with the fields failedAt, errorClass, errorMessage,
  attempt, maxAttempts and payload is written (its path accepting the write) and the
  processing file is deleted.
\<close>

theorem C1_retry_or_dead_letter:
  "(shouldRetry settings st f messageData err \<longleftrightarrow>
      errorClassOf err = Transient \<and>
      attemptOf messageData < max_attempts (getSandboxConfig settings None) \<and>
      messageData \<noteq> None \<and> existsSync st (QUEUE_PROCESSING, f))
   \<and> (shouldRetry settings st f (Some md) err \<and>
      (QUEUE_PROCESSING, f) \<notin> set (unwritable st) \<and>
      (QUEUE_INCOMING, f) \<notin> set (unwritable st) \<longrightarrow>
      (\<exists>st'. handleProcessingError settings now st f (Some md) ctx err = Inr st' \<and>
         map_of (entries st') (QUEUE_INCOMING, f)
           = Some (MessageJson (retryData now md (attemptOf (Some md)))) \<and>
         attempt (retryData now md (attemptOf (Some md))) = Some (orNum (attempt md) 0 + 1) \<and>
         map_of (entries st') (QUEUE_PROCESSING, f) = None \<and>
         oplog st' = oplog st @
           [WriteFile (QUEUE_PROCESSING, f) (MessageJson (retryData now md (attemptOf (Some md)))),
            Rename (QUEUE_PROCESSING, f) (QUEUE_INCOMING, f)]))
   \<and> (\<not> shouldRetry settings st f messageData err \<and>
      (QUEUE_DEAD_LETTER, deadLetterFileName f now) \<notin> set (unwritable st) \<longrightarrow>
      (\<exists>st'. handleProcessingError settings now st f messageData ctx err = Inr st' \<and>
         map_of (entries st') (QUEUE_DEAD_LETTER, deadLetterFileName f now)
           = Some (DeadLetterJson
               \<lparr> failedAt = now, d_errorClass = errorClassOf err,
                 d_errorMessage = toSafeErrorMessage err, d_attempt = attemptOf messageData,
                 d_maxAttempts = max_attempts (getSandboxConfig settings None),
                 d_payload = messageData \<rparr>) \<and>
         map_of (entries st') (QUEUE_PROCESSING, f) = None \<and>
         map_of (entries st') (QUEUE_INCOMING, f) = map_of (entries st) (QUEUE_INCOMING, f)))"
proof (intro conjI impI)
  show "shouldRetry settings st f messageData err \<longleftrightarrow>
      errorClassOf err = Transient \<and>
      attemptOf messageData < max_attempts (getSandboxConfig settings None) \<and>
      messageData \<noteq> None \<and> existsSync st (QUEUE_PROCESSING, f)"
    by (rule shouldRetry_iff)
next
  assume a: "shouldRetry settings st f (Some md) err \<and>
      (QUEUE_PROCESSING, f) \<notin> set (unwritable st) \<and>
      (QUEUE_INCOMING, f) \<notin> set (unwritable st)"
  have "attempt (retryData now md (attemptOf (Some md))) = Some (orNum (attempt md) 0 + 1)"
    by (simp add: retryData_def attemptOf_def)
  with a show "\<exists>st'. handleProcessingError settings now st f (Some md) ctx err = Inr st' \<and>
         map_of (entries st') (QUEUE_INCOMING, f)
           = Some (MessageJson (retryData now md (attemptOf (Some md)))) \<and>
         attempt (retryData now md (attemptOf (Some md))) = Some (orNum (attempt md) 0 + 1) \<and>
         map_of (entries st') (QUEUE_PROCESSING, f) = None \<and>
         oplog st' = oplog st @
           [WriteFile (QUEUE_PROCESSING, f) (MessageJson (retryData now md (attemptOf (Some md)))),
            Rename (QUEUE_PROCESSING, f) (QUEUE_INCOMING, f)]"
    using retry_requeues [of settings st f md err now ctx] by auto
next
  assume a: "\<not> shouldRetry settings st f messageData err \<and>
      (QUEUE_DEAD_LETTER, deadLetterFileName f now) \<notin> set (unwritable st)"
  then show "\<exists>st'. handleProcessingError settings now st f messageData ctx err = Inr st' \<and>
         map_of (entries st') (QUEUE_DEAD_LETTER, deadLetterFileName f now)
           = Some (DeadLetterJson
               \<lparr> failedAt = now, d_errorClass = errorClassOf err,
                 d_errorMessage = toSafeErrorMessage err, d_attempt = attemptOf messageData,
                 d_maxAttempts = max_attempts (getSandboxConfig settings None),
                 d_payload = messageData \<rparr>) \<and>
         map_of (entries st') (QUEUE_PROCESSING, f) = None \<and>
         map_of (entries st') (QUEUE_INCOMING, f) = map_of (entries st) (QUEUE_INCOMING, f)"
    using deadLetterMessage_ok [of f now st settings messageData "attemptOf messageData" ctx err]
    by (simp add: not_retry_dead_letters)
qed

theorem C1_retry_or_dead_letter_witness:
  "shouldRetry exDefaultSettings exQueue ''telegram_m1.json'' (Some exClaimed) exTransientError
   \<and> (QUEUE_PROCESSING, ''telegram_m1.json'') \<notin> set (unwritable exQueue)
   \<and> (QUEUE_INCOMING, ''telegram_m1.json'') \<notin> set (unwritable exQueue)
   \<and> (\<exists>st'. handleProcessingError exDefaultSettings 1700000000000 exQueue ''telegram_m1.json''
                (Some exClaimed) exContext exTransientError = Inr st' \<and>
          map_of (entries st') (QUEUE_INCOMING, ''telegram_m1.json'')
            = Some (MessageJson (exClaimed\<lparr> attempt := Some 1, errorClass := Some Transient \<rparr>)) \<and>
          map_of (entries st') (QUEUE_PROCESSING, ''telegram_m1.json'') = None)
   \<and> \<not> shouldRetry exDefaultSettings exQueue ''telegram_m1.json'' (Some exClaimed) exTerminalError
   \<and> (QUEUE_DEAD_LETTER, deadLetterFileName ''telegram_m1.json'' 1700000000000)
        \<notin> set (unwritable exQueue)
   \<and> (\<exists>st'. handleProcessingError exDefaultSettings 1700000000000 exQueue ''telegram_m1.json''
                (Some exClaimed) exContext exTerminalError = Inr st' \<and>
          map_of (entries st') (QUEUE_DEAD_LETTER, ''telegram_m1_1700000000000.json'')
            = Some (DeadLetterJson
                \<lparr> failedAt = 1700000000000, d_errorClass = Terminal,
                  d_errorMessage = ''invalid reference format'', d_attempt = 1,
                  d_maxAttempts = 3, d_payload = Some exClaimed \<rparr>) \<and>
          map_of (entries st') (QUEUE_PROCESSING, ''telegram_m1.json'') = None)"
proof -
  have m: "max_attempts (getSandboxConfig exDefaultSettings None) = 3"
    by (simp add: getSandboxConfig_max_attempts configured_max_attempts_def
          exDefaultSettings_def orNum_def)
  have at: "attemptOf (Some exClaimed) = 1"
    by (simp add: attemptOf_def exClaimed_def orNum_def)
  have e: "existsSync exQueue (QUEUE_PROCESSING, ''telegram_m1.json'')"
    by (simp add: existsSync_def exQueue_def)
  have c: "errorClassOf exTransientError = Transient" "errorClassOf exTerminalError = Terminal"
    by (simp_all add: errorClassOf_def exTransientError_def exTerminalError_def mkSandboxError_def)
  have w: "(QUEUE_PROCESSING, ''telegram_m1.json'') \<notin> set (unwritable exQueue)"
      "(QUEUE_INCOMING, ''telegram_m1.json'') \<notin> set (unwritable exQueue)"
      "(QUEUE_DEAD_LETTER, deadLetterFileName ''telegram_m1.json'' 1700000000000)
         \<notin> set (unwritable exQueue)"
    by (simp_all add: exQueue_def)
  have n: "deadLetterFileName ''telegram_m1.json'' 1700000000000 = ''telegram_m1_1700000000000.json''"
    by (simp add: deadLetterFileName_def basenameExt_def endsWith_def showNat.simps digitChar_def)
  have r: "toSafeErrorMessage exTerminalError = ''invalid reference format''"
    by (simp add: toSafeErrorMessage_def exTerminalError_def mkSandboxError_def orStr_def
          matchSecret_def startsWith_def Let_def)
  have d: "retryData 1700000000000 exClaimed 1
             = exClaimed\<lparr> attempt := Some 1, errorClass := Some Transient \<rparr>"
    by (simp add: retryData_def exClaimed_def)
  note t1 = C1_retry_or_dead_letter
              [where settings = exDefaultSettings and st = exQueue and f = "''telegram_m1.json''"
                 and messageData = "Some exClaimed" and md = exClaimed and err = exTransientError
                 and now = 1700000000000 and ctx = exContext]
  note t2 = C1_retry_or_dead_letter
              [where settings = exDefaultSettings and st = exQueue and f = "''telegram_m1.json''"
                 and messageData = "Some exClaimed" and md = exClaimed and err = exTerminalError
                 and now = 1700000000000 and ctx = exContext]
  have s1: "shouldRetry exDefaultSettings exQueue ''telegram_m1.json'' (Some exClaimed) exTransientError"
    using t1 m at e c by simp
  have s2: "\<not> shouldRetry exDefaultSettings exQueue ''telegram_m1.json'' (Some exClaimed) exTerminalError"
    using t2 c by simp
  have r1: "\<exists>st'. handleProcessingError exDefaultSettings 1700000000000 exQueue ''telegram_m1.json''
                (Some exClaimed) exContext exTransientError = Inr st' \<and>
          map_of (entries st') (QUEUE_INCOMING, ''telegram_m1.json'')
            = Some (MessageJson (exClaimed\<lparr> attempt := Some 1, errorClass := Some Transient \<rparr>)) \<and>
          map_of (entries st') (QUEUE_PROCESSING, ''telegram_m1.json'') = None"
    using t1 s1 w at d by auto
  have r2: "\<exists>st'. handleProcessingError exDefaultSettings 1700000000000 exQueue ''telegram_m1.json''
                (Some exClaimed) exContext exTerminalError = Inr st' \<and>
          map_of (entries st') (QUEUE_DEAD_LETTER, ''telegram_m1_1700000000000.json'')
            = Some (DeadLetterJson
                \<lparr> failedAt = 1700000000000, d_errorClass = Terminal,
                  d_errorMessage = ''invalid reference format'', d_attempt = 1,
                  d_maxAttempts = 3, d_payload = Some exClaimed \<rparr>) \<and>
          map_of (entries st') (QUEUE_PROCESSING, ''telegram_m1.json'') = None"
    using t2 s2 w at m c r unfolding n by auto
  from s1 s2 w r1 r2 show ?thesis by blast
qed

section \<open>Team chains and aggregation\<close>

lemma fanOut_order:
  "fanOut invoke agents cur ms w = (Inr (results, maps), w') \<Longrightarrow>
     map agentId results = map teammateId ms"
proof (induction ms arbitrary: w results maps)
  case Nil
  then show ?case by simp
next
  case (Cons m ms)
  then show ?case
    by (auto split: option.splits prod.splits sum.splits)
qed

lemma fanOut_invoked:
  assumes "fanOut invoke agents cur ms w = (Inr (results, maps), w')"
    and "\<forall>m \<in> set ms. agents (teammateId m) \<noteq> None"
    and "i < length ms"
  shows "\<exists>wi ri wi'. invoke (teammateId (ms ! i)) (teammateMessage cur (m_message (ms ! i))) wi
                        = (Inr ri, wi') \<and>
                      response (results ! i) = inv_response ri"
  using assms
proof (induction ms arbitrary: w results maps i)
  case Nil
  then show ?case by simp
next
  case (Cons m ms)
  from Cons.prems(2) obtain a where a: "agents (teammateId m) = Some a" by auto
  from Cons.prems(1) a obtain r w1 steps maps1 where
      inv: "invoke (teammateId m) (teammateMessage cur (m_message m)) w = (Inr r, w1)"
    and rest: "fanOut invoke agents cur ms w1 = (Inr (steps, maps1), w')"
    and res: "results = \<lparr> agentId = teammateId m, response = inv_response r \<rparr> # steps"
    by (auto split: prod.splits sum.splits)
  show ?case
  proof (cases i)
    case 0
    then show ?thesis using inv res by auto
  next
    case (Suc j)
    then have "j < length ms" using Cons.prems(3) by simp
    then show ?thesis
      using Cons.IH [OF rest, of j] Cons.prems(2) Suc res by simp
  qed
qed

lemma chainIteration_single:
  assumes "agents (currentAgentId cs) = Some a"
    and "invoke (currentAgentId cs) (currentMessage cs) (world cs) = (Inr r, w)"
    and "ex (inv_response r) (currentAgentId cs) = [m]"
  shows "chainIteration invoke ex agents cs =
           Continue (cs\<lparr> chainSteps := chainSteps cs @
                            [\<lparr> agentId = currentAgentId cs, response = inv_response r \<rparr>],
                          allPathMappings := allPathMappings cs @ inv_pathMappings r,
                          world := w,
                          currentAgentId := teammateId m,
                          currentMessage := teammateMessage (currentAgentId cs) (m_message m) \<rparr>)"
  using assms by (simp add: chainIteration_def Let_def)

lemma chainIteration_none:
  assumes "agents (currentAgentId cs) = Some a"
    and "invoke (currentAgentId cs) (currentMessage cs) (world cs) = (Inr r, w)"
    and "ex (inv_response r) (currentAgentId cs) = []"
  shows "chainIteration invoke ex agents cs =
           Break (cs\<lparr> chainSteps := chainSteps cs @
                            [\<lparr> agentId = currentAgentId cs, response = inv_response r \<rparr>],
                       allPathMappings := allPathMappings cs @ inv_pathMappings r,
                       world := w \<rparr>)"
  using assms by (simp add: chainIteration_def Let_def)

lemma chainIteration_fanOut:
  assumes "agents (currentAgentId cs) = Some a"
    and "invoke (currentAgentId cs) (currentMessage cs) (world cs) = (Inr r, w)"
    and "1 < length (ex (inv_response r) (currentAgentId cs))"
    and "fanOut invoke agents (currentAgentId cs) (ex (inv_response r) (currentAgentId cs)) w
           = (Inr (results, fmaps), w')"
  shows "chainIteration invoke ex agents cs =
           Break (cs\<lparr> chainSteps := chainSteps cs @
                            [\<lparr> agentId = currentAgentId cs, response = inv_response r \<rparr>] @ results,
                       allPathMappings := allPathMappings cs @ inv_pathMappings r @ fmaps,
                       world := w' \<rparr>)"
  using assms by (cases "ex (inv_response r) (currentAgentId cs)") (auto simp: chainIteration_def Let_def)

lemma teamChain_Continue:
  "chainIteration invoke ex agents cs = Continue cs' \<Longrightarrow>
     teamChain invoke ex agents cs = teamChain invoke ex agents cs'"
  by (subst teamChain.simps) simp

lemma teamChain_Break:
  "chainIteration invoke ex agents cs = Break cs' \<Longrightarrow>
     teamChain invoke ex agents cs = Some (Inr cs')"
  by (subst teamChain.simps) simp

lemma aggregate_cases:
  "aggregate [s] = response s \<and>
   (length steps \<noteq> 1 \<longrightarrow>
      aggregate steps =
        joinWith chainSeparator (map (\<lambda>step. ''@'' @ agentId step @ '': '' @ response step) steps))"
  unfolding aggregate_def by (simp del: append.simps)


text \<open>
  C2. In a team chain, for a round in which the current agent is configured and its
  invocation succeeds: when the response mentions exactly one teammate, the loop goes on
  with that teammate as current agent and with the message
  \<^verbatim>\<open>[Message from teammate @<prev>]:\<close>, a newline and the mention's message, and a
  configured teammate that mentions nobody ends the chain with the two steps in order;
  when the response mentions more than one teammate, the chain ends in that round with
  the results of the fan-out appended in mention order, each configured teammate having
  been invoked with the teammate message. The final response is the response of the lone
  step when there is one step, and otherwise the steps rendered as \<^verbatim>\<open>@id: response\<close> and
  joined with an empty line, three dashes and an empty line.
\<close>

theorem C2_team_chain:
  "teammateMessage prev msg = ''[Message from teammate @'' @ prev @ '']:'' @ [CHR 0x0A] @ msg
   \<and> (agents (currentAgentId cs) = Some a \<and>
      invoke (currentAgentId cs) (currentMessage cs) (world cs) = (Inr r, w) \<and>
      ex (inv_response r) (currentAgentId cs) = [m] \<longrightarrow>
      chainIteration invoke ex agents cs =
        Continue (cs\<lparr> chainSteps := chainSteps cs @
                         [\<lparr> agentId = currentAgentId cs, response = inv_response r \<rparr>],
                       allPathMappings := allPathMappings cs @ inv_pathMappings r,
                       world := w,
                       currentAgentId := teammateId m,
                       currentMessage := teammateMessage (currentAgentId cs) (m_message m) \<rparr>) \<and>
      teamChain invoke ex agents cs =
        teamChain invoke ex agents
          (cs\<lparr> chainSteps := chainSteps cs @
                  [\<lparr> agentId = currentAgentId cs, response = inv_response r \<rparr>],
                allPathMappings := allPathMappings cs @ inv_pathMappings r,
                world := w,
                currentAgentId := teammateId m,
                currentMessage := teammateMessage (currentAgentId cs) (m_message m) \<rparr>))
   \<and> (agents (currentAgentId cs) = Some a \<and>
      invoke (currentAgentId cs) (currentMessage cs) (world cs) = (Inr r, w) \<and>
      ex (inv_response r) (currentAgentId cs) = [m] \<and>
      agents (teammateId m) = Some b \<and>
      invoke (teammateId m) (teammateMessage (currentAgentId cs) (m_message m)) w = (Inr rb, wb) \<and>
      ex (inv_response rb) (teammateId m) = [] \<longrightarrow>
      teamChain invoke ex agents cs =
        Some (Inr (cs\<lparr> chainSteps := chainSteps cs @
                          [\<lparr> agentId = currentAgentId cs, response = inv_response r \<rparr>,
                           \<lparr> agentId = teammateId m, response = inv_response rb \<rparr>],
                        allPathMappings :=
                          allPathMappings cs @ inv_pathMappings r @ inv_pathMappings rb,
                        world := wb,
                        currentAgentId := teammateId m,
                        currentMessage := teammateMessage (currentAgentId cs) (m_message m) \<rparr>)))
   \<and> (agents (currentAgentId cs) = Some a \<and>
      invoke (currentAgentId cs) (currentMessage cs) (world cs) = (Inr r, w) \<and>
      ex (inv_response r) (currentAgentId cs) = ms \<and> 1 < length ms \<and>
      (\<forall>m \<in> set ms. agents (teammateId m) \<noteq> None) \<and>
      fanOut invoke agents (currentAgentId cs) ms w = (Inr (results, fmaps), w') \<longrightarrow>
      teamChain invoke ex agents cs =
        Some (Inr (cs\<lparr> chainSteps := chainSteps cs @
                          [\<lparr> agentId = currentAgentId cs, response = inv_response r \<rparr>] @ results,
                        allPathMappings := allPathMappings cs @ inv_pathMappings r @ fmaps,
                        world := w' \<rparr>)) \<and>
      map agentId results = map teammateId ms \<and>
      (\<forall>i < length ms.
         \<exists>wi ri wi'.
           invoke (teammateId (ms ! i))
             (teammateMessage (currentAgentId cs) (m_message (ms ! i))) wi = (Inr ri, wi') \<and>
           response (results ! i) = inv_response ri))
   \<and> aggregate [s] = response s
   \<and> (length steps \<noteq> 1 \<longrightarrow>
        aggregate steps =
          joinWith chainSeparator (map (\<lambda>step. ''@'' @ agentId step @ '': '' @ response step) steps))"
proof -
  let ?cs1 = "cs\<lparr> chainSteps := chainSteps cs @
                  [\<lparr> agentId = currentAgentId cs, response = inv_response r \<rparr>],
                allPathMappings := allPathMappings cs @ inv_pathMappings r,
                world := w,
                currentAgentId := teammateId m,
                currentMessage := teammateMessage (currentAgentId cs) (m_message m) \<rparr>"
  have 1: "chainIteration invoke ex agents cs = Continue ?cs1 \<and>
           teamChain invoke ex agents cs = teamChain invoke ex agents ?cs1"
    if "agents (currentAgentId cs) = Some a \<and>
        invoke (currentAgentId cs) (currentMessage cs) (world cs) = (Inr r, w) \<and>
        ex (inv_response r) (currentAgentId cs) = [m]"
    using that chainIteration_single [of agents cs a invoke r w ex m] teamChain_Continue
    by metis
  have 2: "teamChain invoke ex agents cs =
        Some (Inr (cs\<lparr> chainSteps := chainSteps cs @
                          [\<lparr> agentId = currentAgentId cs, response = inv_response r \<rparr>,
                           \<lparr> agentId = teammateId m, response = inv_response rb \<rparr>],
                        allPathMappings :=
                          allPathMappings cs @ inv_pathMappings r @ inv_pathMappings rb,
                        world := wb,
                        currentAgentId := teammateId m,
                        currentMessage := teammateMessage (currentAgentId cs) (m_message m) \<rparr>))"
    if h: "agents (currentAgentId cs) = Some a \<and>
      invoke (currentAgentId cs) (currentMessage cs) (world cs) = (Inr r, w) \<and>
      ex (inv_response r) (currentAgentId cs) = [m] \<and>
      agents (teammateId m) = Some b \<and>
      invoke (teammateId m) (teammateMessage (currentAgentId cs) (m_message m)) w = (Inr rb, wb) \<and>
      ex (inv_response rb) (teammateId m) = []"
  proof -
    from h 1 have c: "teamChain invoke ex agents cs = teamChain invoke ex agents ?cs1"
      by blast
    have "chainIteration invoke ex agents ?cs1 =
            Break (?cs1\<lparr> chainSteps := chainSteps ?cs1 @
                            [\<lparr> agentId = currentAgentId ?cs1, response = inv_response rb \<rparr>],
                          allPathMappings := allPathMappings ?cs1 @ inv_pathMappings rb,
                          world := wb \<rparr>)"
      using h by (intro chainIteration_none [of agents ?cs1 b invoke rb wb ex]) simp_all
    then have "teamChain invoke ex agents ?cs1 =
            Some (Inr (?cs1\<lparr> chainSteps := chainSteps ?cs1 @
                            [\<lparr> agentId = currentAgentId ?cs1, response = inv_response rb \<rparr>],
                          allPathMappings := allPathMappings ?cs1 @ inv_pathMappings rb,
                          world := wb \<rparr>))"
      by (rule teamChain_Break)
    with c show ?thesis by simp
  qed
  have 3: "teamChain invoke ex agents cs =
        Some (Inr (cs\<lparr> chainSteps := chainSteps cs @
                          [\<lparr> agentId = currentAgentId cs, response = inv_response r \<rparr>] @ results,
                        allPathMappings := allPathMappings cs @ inv_pathMappings r @ fmaps,
                        world := w' \<rparr>)) \<and>
      map agentId results = map teammateId ms \<and>
      (\<forall>i < length ms.
         \<exists>wi ri wi'.
           invoke (teammateId (ms ! i))
             (teammateMessage (currentAgentId cs) (m_message (ms ! i))) wi = (Inr ri, wi') \<and>
           response (results ! i) = inv_response ri)"
    if h: "agents (currentAgentId cs) = Some a \<and>
      invoke (currentAgentId cs) (currentMessage cs) (world cs) = (Inr r, w) \<and>
      ex (inv_response r) (currentAgentId cs) = ms \<and> 1 < length ms \<and>
      (\<forall>m \<in> set ms. agents (teammateId m) \<noteq> None) \<and>
      fanOut invoke agents (currentAgentId cs) ms w = (Inr (results, fmaps), w')"
  proof (intro conjI allI impI)
    have "chainIteration invoke ex agents cs =
           Break (cs\<lparr> chainSteps := chainSteps cs @
                            [\<lparr> agentId = currentAgentId cs, response = inv_response r \<rparr>] @ results,
                       allPathMappings := allPathMappings cs @ inv_pathMappings r @ fmaps,
                       world := w' \<rparr>)"
      using h by (intro chainIteration_fanOut [of agents cs a invoke r w ex results fmaps w']) simp_all
    then show "teamChain invoke ex agents cs =
        Some (Inr (cs\<lparr> chainSteps := chainSteps cs @
                          [\<lparr> agentId = currentAgentId cs, response = inv_response r \<rparr>] @ results,
                        allPathMappings := allPathMappings cs @ inv_pathMappings r @ fmaps,
                        world := w' \<rparr>))"
      by (rule teamChain_Break)
    show "map agentId results = map teammateId ms"
      using h fanOut_order [of invoke agents "currentAgentId cs" ms w results fmaps w'] by simp
    show "\<exists>wi ri wi'.
           invoke (teammateId (ms ! i))
             (teammateMessage (currentAgentId cs) (m_message (ms ! i))) wi = (Inr ri, wi') \<and>
           response (results ! i) = inv_response ri" if "i < length ms" for i
      using h that fanOut_invoked [of invoke agents "currentAgentId cs" ms w results fmaps w' i]
      by simp
  qed
  have 0: "teammateMessage prev msg = ''[Message from teammate @'' @ prev @ '']:'' @ [CHR 0x0A] @ msg"
    by (simp add: teammateMessage_def)
  from 0 1 2 3 aggregate_cases [of s steps] show ?thesis
    by blast
qed

theorem C2_team_chain_witness:
  "exAgents ''lead'' = Some (exAgent ''Lead'')
   \<and> exInvoke ''lead'' ''plan this'' 0 = (Inr (exReply ''@coder implement X''), 1)
   \<and> exExtract ''@coder implement X'' ''lead'' = [exCoderMention]
   \<and> chainIteration exInvoke exExtract exAgents (startChain ''lead'' ''plan this'' 0) =
       Continue \<lparr> chainSteps = [\<lparr> agentId = ''lead'', response = ''@coder implement X'' \<rparr>],
                  currentAgentId = ''coder'',
                  currentMessage = ''[Message from teammate @lead]:'' @ [CHR 0x0A] @ ''implement X'',
                  allPathMappings = [], world = 1 \<rparr>
   \<and> exAgents ''coder'' = Some (exAgent ''Coder'')
   \<and> exExtract ''done'' ''coder'' = []
   \<and> teamChain exInvoke exExtract exAgents (startChain ''lead'' ''plan this'' 0) =
       Some (Inr \<lparr> chainSteps = [\<lparr> agentId = ''lead'', response = ''@coder implement X'' \<rparr>,
                                 \<lparr> agentId = ''coder'', response = ''done'' \<rparr>],
                   currentAgentId = ''coder'',
                   currentMessage = ''[Message from teammate @lead]:'' @ [CHR 0x0A] @ ''implement X'',
                   allPathMappings = [], world = 2 \<rparr>)
   \<and> aggregate [\<lparr> agentId = ''lead'', response = ''@coder implement X'' \<rparr>,
                 \<lparr> agentId = ''coder'', response = ''done'' \<rparr>]
       = ''@lead: @coder implement X'' @ [CHR 0x0A, CHR 0x0A] @ ''---'' @ [CHR 0x0A, CHR 0x0A]
         @ ''@coder: done''
   \<and> exExtractFan ''@a do A @b do B'' ''lead'' = exFanMentions
   \<and> 1 < length exFanMentions
   \<and> fanOut exInvokeFan exAgents ''lead'' exFanMentions 1 = (Inr (exFanResults, []), 3)
   \<and> teamChain exInvokeFan exExtractFan exAgents (startChain ''lead'' ''go'' 0) =
       Some (Inr \<lparr> chainSteps = \<lparr> agentId = ''lead'', response = ''@a do A @b do B'' \<rparr> # exFanResults,
                   currentAgentId = ''lead'', currentMessage = ''go'',
                   allPathMappings = [], world = 3 \<rparr>)
   \<and> map agentId exFanResults = map teammateId exFanMentions
   \<and> aggregate [\<lparr> agentId = ''default'', response = ''hi'' \<rparr>] = ''hi''"
proof -
  have h1: "exAgents ''lead'' = Some (exAgent ''Lead'')" "exAgents ''coder'' = Some (exAgent ''Coder'')"
    by (simp_all add: exAgents_def)
  have h2: "exInvoke ''lead'' ''plan this'' 0 = (Inr (exReply ''@coder implement X''), 1)"
      "exInvoke ''coder'' (teammateMessage ''lead'' ''implement X'') 1 = (Inr (exReply ''done''), 2)"
    by (simp_all add: exInvoke_def)
  have h3: "exExtract ''@coder implement X'' ''lead'' = [exCoderMention]"
      "exExtract ''done'' ''coder'' = []"
    by (simp_all add: exExtract_def exCoderMention_def)
  have s: "currentAgentId (startChain x y z) = x" "currentMessage (startChain x y z) = y"
      "world (startChain x y z) = z" "chainSteps (startChain x y z) = []"
      "allPathMappings (startChain x y z) = []" for x y and z :: nat
    by (simp_all add: startChain_def)
  note t1 = C2_team_chain
    [where agents = exAgents and cs = "startChain ''lead'' ''plan this'' 0"
       and a = "exAgent ''Lead''" and invoke = exInvoke
       and r = "exReply ''@coder implement X''" and w = 1 and ex = exExtract
       and m = exCoderMention and b = "exAgent ''Coder''" and rb = "exReply ''done''" and wb = 2
       and prev = "''lead''" and msg = "''implement X''"
       and ms = "[]" and results = "[]" and fmaps = "[]" and w' = 0
       and s = "\<lparr> agentId = ''default'', response = ''hi'' \<rparr>"
       and steps = "[\<lparr> agentId = ''lead'', response = ''@coder implement X'' \<rparr>,
                    \<lparr> agentId = ''coder'', response = ''done'' \<rparr>]"]
  have c1: "chainIteration exInvoke exExtract exAgents (startChain ''lead'' ''plan this'' 0) =
       Continue \<lparr> chainSteps = [\<lparr> agentId = ''lead'', response = ''@coder implement X'' \<rparr>],
                  currentAgentId = ''coder'',
                  currentMessage = ''[Message from teammate @lead]:'' @ [CHR 0x0A] @ ''implement X'',
                  allPathMappings = [], world = 1 \<rparr>"
    using t1 [THEN conjunct2, THEN conjunct1] h1 h2 h3
    by (simp add: s exReply_def exCoderMention_def startChain_def teammateMessage_def)
  have c2: "teamChain exInvoke exExtract exAgents (startChain ''lead'' ''plan this'' 0) =
       Some (Inr \<lparr> chainSteps = [\<lparr> agentId = ''lead'', response = ''@coder implement X'' \<rparr>,
                                 \<lparr> agentId = ''coder'', response = ''done'' \<rparr>],
                   currentAgentId = ''coder'',
                   currentMessage = ''[Message from teammate @lead]:'' @ [CHR 0x0A] @ ''implement X'',
                   allPathMappings = [], world = 2 \<rparr>)"
    using t1 [THEN conjunct2, THEN conjunct2, THEN conjunct1] h1 h2 h3
    by (simp add: s exReply_def exCoderMention_def startChain_def teammateMessage_def)
  have c3: "aggregate [\<lparr> agentId = ''lead'', response = ''@coder implement X'' \<rparr>,
                 \<lparr> agentId = ''coder'', response = ''done'' \<rparr>]
       = ''@lead: @coder implement X'' @ [CHR 0x0A, CHR 0x0A] @ ''---'' @ [CHR 0x0A, CHR 0x0A]
         @ ''@coder: done''"
    using t1 [THEN conjunct2, THEN conjunct2, THEN conjunct2, THEN conjunct2, THEN conjunct2]
    by (simp add: chainSeparator_def)
  have c4: "aggregate [\<lparr> agentId = ''default'', response = ''hi'' \<rparr>] = ''hi''"
    using t1 [THEN conjunct2, THEN conjunct2, THEN conjunct2, THEN conjunct2, THEN conjunct1]
    by simp
  have f1: "exInvokeFan ''lead'' ''go'' 0 = (Inr (exReply ''@a do A @b do B''), 1)"
    by (simp add: exInvokeFan_def)
  have f2: "exExtractFan ''@a do A @b do B'' ''lead'' = exFanMentions"
    by (simp add: exExtractFan_def exFanMentions_def)
  have f3: "1 < length exFanMentions" "\<forall>m \<in> set exFanMentions. exAgents (teammateId m) \<noteq> None"
    by (simp_all add: exFanMentions_def exAgents_def)
  have f4: "fanOut exInvokeFan exAgents ''lead'' exFanMentions 1 = (Inr (exFanResults, []), 3)"
    by (simp add: exFanMentions_def exAgents_def exInvokeFan_def exReply_def exFanResults_def)
  note t2 = C2_team_chain
    [where agents = exAgents and cs = "startChain ''lead'' ''go'' 0"
       and a = "exAgent ''Lead''" and invoke = exInvokeFan
       and r = "exReply ''@a do A @b do B''" and w = 1 and ex = exExtractFan
       and ms = exFanMentions and results = exFanResults and fmaps = "[]" and w' = 3
       and m = exCoderMention and b = "exAgent ''Coder''" and rb = "exReply ''done''" and wb = 2
       and prev = "''lead''" and msg = "''implement X''"
       and s = "\<lparr> agentId = ''default'', response = ''hi'' \<rparr>" and steps = "[]"]
  have c5: "teamChain exInvokeFan exExtractFan exAgents (startChain ''lead'' ''go'' 0) =
       Some (Inr \<lparr> chainSteps = \<lparr> agentId = ''lead'', response = ''@a do A @b do B'' \<rparr> # exFanResults,
                   currentAgentId = ''lead'', currentMessage = ''go'',
                   allPathMappings = [], world = 3 \<rparr>)
     \<and> map agentId exFanResults = map teammateId exFanMentions"
    using t2 [THEN conjunct2, THEN conjunct2, THEN conjunct2, THEN conjunct1] h1 f1 f2 f3 f4
    by (simp add: s exReply_def startChain_def teammateMessage_def)
  from h1 h2 h3 c1 c2 c3 c4 f2 f3 f4 c5 show ?thesis by simp
qed

end
